theory Spec2Isabelle
  imports Main "HOL-Library.Sublist" "HOL-Library.Word"
begin

unbundle bit_operations_syntax

section \<open>Basic types\<close>

text \<open>
  A Go byte slice and a Go string are both sequences of bytes; a \<^typ>\<open>char\<close> is one byte.
  A \<open>time.Time\<close> is kept as a count of seconds whose origin is Go's zero Time
  (January 1, year 1, 00:00 UTC), so that \<open>IsZero\<close> is the test for 0.
\<close>

type_synonym bytes = string
type_synonym time = int

definition IsZero :: "time \<Rightarrow> bool" where
  "IsZero t = (t = 0)"

text \<open>The error values that reach the three operations. A caller's writer may answer with
  any of them.\<close>

datatype error =
    EOF                      \<comment> \<open>\<open>io.EOF\<close>\<close>
  | ErrUnexpectedEOF         \<comment> \<open>\<open>io.ErrUnexpectedEOF\<close>\<close>
  | ErrHeader                \<comment> \<open>\<open>tar.ErrHeader\<close> / \<open>gzip.ErrHeader\<close>\<close>
  | ErrWriteTooLong          \<comment> \<open>\<open>tar.ErrWriteTooLong\<close>\<close>
  | ErrWriteAfterClose       \<comment> \<open>\<open>tar.ErrWriteAfterClose\<close>\<close>
  | ErrMissedWriting nat     \<comment> \<open>"archive/tar: missed writing n bytes"\<close>
  | ErrInvalidHeader         \<comment> \<open>a header no tar format can hold\<close>
  | ErrSocket                \<comment> \<open>"archive/tar: sockets not supported"\<close>
  | ErrUnknownMode           \<comment> \<open>"archive/tar: unknown file mode"\<close>
  | ErrInvalid               \<comment> \<open>\<open>os.ErrInvalid\<close>, a nil \<open>*os.File\<close>\<close>
  | ErrShortWrite            \<comment> \<open>\<open>io.ErrShortWrite\<close>\<close>
  | SkipDir                  \<comment> \<open>\<open>filepath.SkipDir\<close>\<close>
  | SkipAll                  \<comment> \<open>\<open>filepath.SkipAll\<close>\<close>
  | ENOENT | ENOTDIR | EISDIR | EACCES
  | SinkError nat            \<comment> \<open>an error of a caller's writer\<close>

section \<open>The string and path functions of the Go library that the code calls\<close>

text \<open>\<open>strings.Replace(s, old, new, -1)\<close>: every non-overlapping occurrence of \<open>old\<close>,
  scanning from the left; an empty \<open>old\<close> matches before every byte and at the end.\<close>

function strings_Replace :: "string \<Rightarrow> string \<Rightarrow> string \<Rightarrow> string" where
  "strings_Replace s old new =
     (if old = [] then new @ concat (map (\<lambda>c. c # new) s)
      else if s = [] then []
      else if prefix old s then new @ strings_Replace (drop (length old) s) old new
      else hd s # strings_Replace (tl s) old new)"
  by pat_completeness auto
termination
  by (relation "measure (\<lambda>(s, old, new). length s)") auto

declare strings_Replace.simps [simp del]

definition strings_TrimPrefix :: "string \<Rightarrow> string \<Rightarrow> string" where
  "strings_TrimPrefix s p = (if prefix p s then drop (length p) s else s)"

definition strings_HasSuffix :: "string \<Rightarrow> string \<Rightarrow> bool" where
  "strings_HasSuffix s p = suffix p s"

definition Separator :: char where
  "Separator = CHR ''/''"

text \<open>Splitting a path at the separators; the pieces between two adjacent separators are
  empty strings.\<close>

fun split_path :: "string \<Rightarrow> string list" where
  "split_path [] = [[]]"
| "split_path (c # cs) =
     (if c = Separator then [] # split_path cs
      else (case split_path cs of
              [] \<Rightarrow> [[c]]
            | p # ps \<Rightarrow> (c # p) # ps))"

fun join_path :: "string list \<Rightarrow> string" where
  "join_path [] = []"
| "join_path [p] = p"
| "join_path (p # q # ps) = p @ Separator # join_path (q # ps)"

text \<open>\<open>filepath.Clean\<close> on a Unix path, on the list of the path's elements: empty elements
  and \<open>.\<close> go; \<open>..\<close> removes the element before it, is dropped at the root of a rooted
  path, and is kept at the front of a relative one. The stack is kept reversed.\<close>

fun clean_elems :: "bool \<Rightarrow> string list \<Rightarrow> string list \<Rightarrow> string list" where
  "clean_elems rooted st [] = rev st"
| "clean_elems rooted st (e # es) =
     (if e = [] \<or> e = ''.'' then clean_elems rooted st es
      else if e = ''..'' then
        (case st of
           [] \<Rightarrow> if rooted then clean_elems rooted [] es else clean_elems rooted [e] es
         | t # ts \<Rightarrow> if t = ''..'' then clean_elems rooted (e # st) es
                     else clean_elems rooted ts es)
      else clean_elems rooted (e # st) es)"

definition is_rooted :: "string \<Rightarrow> bool" where
  "is_rooted p = (case p of [] \<Rightarrow> False | c # _ \<Rightarrow> c = Separator)"

definition Clean :: "string \<Rightarrow> string" where
  "Clean p =
     (let out = (if is_rooted p then [Separator] else [])
                @ join_path (clean_elems (is_rooted p) [] (split_path p))
      in if out = [] then ''.'' else out)"

text \<open>\<open>filepath.Join(a, b)\<close>: empty leading elements are ignored, the rest is joined with
  the separator and cleaned; all elements empty gives the empty string.\<close>

definition Join :: "string \<Rightarrow> string \<Rightarrow> string" where
  "Join a b =
     (if a \<noteq> [] then Clean (a @ Separator # b)
      else if b \<noteq> [] then Clean b
      else [])"

text \<open>\<open>filepath.Base\<close>: the last element of the path, trailing separators removed first.\<close>

definition Base :: "string \<Rightarrow> string" where
  "Base p =
     (if p = [] then ''.''
      else (case filter (\<lambda>e. e \<noteq> []) (split_path p) of
              [] \<Rightarrow> [Separator]
            | es \<Rightarrow> last es))"

section \<open>File modes\<close>

type_synonym FileMode = "32 word"

definition ModeDir :: FileMode where "ModeDir = push_bit 31 1"
definition ModeSymlink :: FileMode where "ModeSymlink = push_bit 27 1"
definition ModeDevice :: FileMode where "ModeDevice = push_bit 26 1"
definition ModeNamedPipe :: FileMode where "ModeNamedPipe = push_bit 25 1"
definition ModeSocket :: FileMode where "ModeSocket = push_bit 24 1"
definition ModeSetuid :: FileMode where "ModeSetuid = push_bit 23 1"
definition ModeSetgid :: FileMode where "ModeSetgid = push_bit 22 1"
definition ModeCharDevice :: FileMode where "ModeCharDevice = push_bit 21 1"
definition ModeSticky :: FileMode where "ModeSticky = push_bit 20 1"
definition ModeIrregular :: FileMode where "ModeIrregular = push_bit 19 1"

definition ModeType :: FileMode where
  "ModeType = ModeDir OR ModeSymlink OR ModeNamedPipe OR ModeSocket OR ModeDevice
              OR ModeCharDevice OR ModeIrregular"

definition ModePerm :: FileMode where "ModePerm = 511"

definition IsDir :: "FileMode \<Rightarrow> bool" where
  "IsDir m = (m AND ModeDir \<noteq> 0)"

definition IsRegular :: "FileMode \<Rightarrow> bool" where
  "IsRegular m = (m AND ModeType = 0)"

lemmas mode_defs = ModeDir_def ModeSymlink_def ModeDevice_def ModeNamedPipe_def
  ModeSocket_def ModeSetuid_def ModeSetgid_def ModeCharDevice_def ModeSticky_def
  ModeIrregular_def ModeType_def ModePerm_def IsDir_def IsRegular_def

section \<open>Tar headers\<close>

text \<open>The fields of \<open>tar.Header\<close> that the code sets or reads. A field the code leaves out
  of a composite literal has Go's zero value, which is what \<open>Header0\<close> holds.\<close>

definition TypeReg :: char where "TypeReg = CHR ''0''"
definition TypeRegA :: char where "TypeRegA = CHR 0x00"
definition TypeDir :: char where "TypeDir = CHR ''5''"
definition TypeSymlink :: char where "TypeSymlink = CHR ''2''"

record Header =
  Typeflag :: char
  Name :: string
  Size :: int
  Mode :: int
  Uid :: int
  Gid :: int
  Uname :: string
  Gname :: string
  ModTime :: time
  AccessTime :: time
  ChangeTime :: time

definition Header0 :: Header where
  "Header0 = \<lparr>Typeflag = TypeRegA, Name = [], Size = 0, Mode = 0, Uid = 0, Gid = 0,
     Uname = [], Gname = [], ModTime = 0, AccessTime = 0, ChangeTime = 0\<rparr>"

text \<open>What \<open>os.FileInfo\<close> and its \<open>Sys()\<close> report about a file.\<close>

record FileInfo =
  fi_Name :: string
  fi_Size :: int
  fi_Mode :: FileMode
  fi_ModTime :: time
  fi_Atime :: time
  fi_Ctime :: time
  fi_Uid :: int
  fi_Gid :: int
  fi_Uname :: string
  fi_Gname :: string

text \<open>\<open>tar.FileInfoHeader(info, link)\<close>: name, size, times and owner come from the file;
  the permission bits and the setuid, setgid and sticky bits (as the C constants
  04000, 02000, 01000) make the mode; the type bits choose the type flag. A socket and an
  unknown type are errors.\<close>

definition FileInfoHeader :: "FileInfo \<Rightarrow> string \<Rightarrow> error + Header" where
  "FileInfoHeader fi link =
     (let fm = fi_Mode fi;
          h = \<lparr>Typeflag = TypeRegA, Name = fi_Name fi, Size = 0,
               Mode = uint (fm AND ModePerm)
                 + (if fm AND ModeSetuid \<noteq> 0 then 2048 else 0)
                 + (if fm AND ModeSetgid \<noteq> 0 then 1024 else 0)
                 + (if fm AND ModeSticky \<noteq> 0 then 512 else 0),
               Uid = fi_Uid fi, Gid = fi_Gid fi,
               Uname = fi_Uname fi, Gname = fi_Gname fi,
               ModTime = fi_ModTime fi, AccessTime = fi_Atime fi, ChangeTime = fi_Ctime fi\<rparr>
      in if IsRegular fm then Inr (h\<lparr>Typeflag := TypeReg, Size := fi_Size fi\<rparr>)
         else if IsDir fm then Inr (h\<lparr>Typeflag := TypeDir, Name := fi_Name fi @ ''/''\<rparr>)
         else if fm AND ModeSymlink \<noteq> 0 then Inr (h\<lparr>Typeflag := TypeSymlink\<rparr>)
         else if fm AND ModeDevice \<noteq> 0 then
           Inr (h\<lparr>Typeflag := (if fm AND ModeCharDevice \<noteq> 0 then CHR ''3'' else CHR ''4'')\<rparr>)
         else if fm AND ModeNamedPipe \<noteq> 0 then Inr (h\<lparr>Typeflag := CHR ''6''\<rparr>)
         else if fm AND ModeSocket \<noteq> 0 then Inl ErrSocket
         else Inl ErrUnknownMode)"

section \<open>The stream pipeline: sinks, fan-out, gzip writer, tar writer\<close>

text \<open>
  The codecs are library code, used and not reimplemented, so the archive stream is kept
  structured. The tar writer hands \<open>block\<close>s to the gzip writer: a header block, a piece of
  content, the zero padding after the content, a zero block of the trailer. The gzip writer
  hands \<open>frame\<close>s to the fan-out writer: the ten byte gzip header, a run of deflated blocks,
  the trailer with checksum and size. The bytes on a sink are a fixed function of its frames,
  so equal frame lists are equal byte streams.
\<close>

datatype block = HeaderBlock Header | Content bytes | Padding nat | ZeroBlock

datatype frame = GzipHeader | Deflate "block list" | GzipTrailer

fun block_len :: "block \<Rightarrow> nat" where
  "block_len (HeaderBlock h) = 512"
| "block_len (Content b) = length b"
| "block_len (Padding n) = n"
| "block_len ZeroBlock = 512"

text \<open>
  A caller's \<open>io.Writer\<close>. It accepts \<open>quota\<close> more writes (\<open>None\<close>: every write) and answers
  each later one with its error \<open>failure\<close>; \<open>refused\<close> records that it has done so, and
  \<open>received\<close> is what it accepted.
\<close>

record sink =
  received :: "frame list"
  quota :: "nat option"
  failure :: error
  refused :: bool

definition sink_Write :: "frame \<Rightarrow> sink \<Rightarrow> error option \<times> sink" where
  "sink_Write f s =
     (case quota s of
        None \<Rightarrow> (None, s\<lparr>received := received s @ [f]\<rparr>)
      | Some 0 \<Rightarrow> (Some (failure s), s\<lparr>refused := True\<rparr>)
      | Some (Suc k) \<Rightarrow> (None, s\<lparr>received := received s @ [f], quota := Some k\<rparr>))"

text \<open>\<open>io.MultiWriter\<close>: the writers in order, stopping at the first error.\<close>

fun mw_Write :: "frame \<Rightarrow> sink list \<Rightarrow> error option \<times> sink list" where
  "mw_Write f [] = (None, [])"
| "mw_Write f (w # ws) =
     (case sink_Write f w of
        (Some e, w') \<Rightarrow> (Some e, w' # ws)
      | (None, w') \<Rightarrow> (case mw_Write f ws of (r, ws') \<Rightarrow> (r, w' # ws')))"

text \<open>
  \<open>gzip.Writer\<close>. The header goes out with the first write. The compressor keeps what it
  is given until it holds \<open>gz_blk\<close> bytes or more, and then, or when it is closed, writes it
  out; \<open>gz_blk\<close> stands for the block capacity of \<open>compress/flate\<close>. An error sticks in
  \<open>gz_err\<close>.
\<close>

record gzip_Writer =
  gz_w :: "sink list"
  gz_blk :: nat
  gz_wroteHeader :: bool
  gz_pending :: "block list"
  gz_err :: "error option"
  gz_closed :: bool

definition gzip_NewWriter :: "nat \<Rightarrow> sink list \<Rightarrow> gzip_Writer" where
  "gzip_NewWriter blk w = \<lparr>gz_w = w, gz_blk = blk, gz_wroteHeader = False,
     gz_pending = [], gz_err = None, gz_closed = False\<rparr>"

definition flate_Write :: "block list \<Rightarrow> gzip_Writer \<Rightarrow> error option \<times> gzip_Writer" where
  "flate_Write p z =
     (let pend = gz_pending z @ p
      in if p \<noteq> [] \<and> gz_blk z \<le> sum_list (map block_len pend) then
           (case mw_Write (Deflate pend) (gz_w z) of
              (r, w') \<Rightarrow> (r, z\<lparr>gz_w := w', gz_pending := []\<rparr>))
         else (None, z\<lparr>gz_pending := pend\<rparr>))"

definition flate_Close :: "gzip_Writer \<Rightarrow> error option \<times> gzip_Writer" where
  "flate_Close z =
     (case mw_Write (Deflate (gz_pending z)) (gz_w z) of
        (r, w') \<Rightarrow> (r, z\<lparr>gz_w := w', gz_pending := []\<rparr>))"

definition gz_Write :: "block list \<Rightarrow> gzip_Writer \<Rightarrow> error option \<times> gzip_Writer" where
  "gz_Write p z =
     (if gz_err z \<noteq> None then (gz_err z, z)
      else
        let z1 = (if \<not> gz_wroteHeader z then
                    (case mw_Write GzipHeader (gz_w z) of
                       (r, w') \<Rightarrow> z\<lparr>gz_wroteHeader := True, gz_w := w', gz_err := r\<rparr>)
                  else z)
        in if gz_err z1 \<noteq> None then (gz_err z1, z1)
           else (case flate_Write p z1 of (r, z2) \<Rightarrow> (r, z2\<lparr>gz_err := r\<rparr>)))"

definition gz_Close :: "gzip_Writer \<Rightarrow> error option \<times> gzip_Writer" where
  "gz_Close z =
     (if gz_err z \<noteq> None then (gz_err z, z)
      else if gz_closed z then (None, z)
      else
        let z0 = z\<lparr>gz_closed := True\<rparr>;
            z1 = (if \<not> gz_wroteHeader z0 then snd (gz_Write [] z0) else z0)
        in if gz_err z1 \<noteq> None then (gz_err z1, z1)
           else (case flate_Close z1 of
                   (Some e, z2) \<Rightarrow> (Some e, z2\<lparr>gz_err := Some e\<rparr>)
                 | (None, z2) \<Rightarrow>
                     (case mw_Write GzipTrailer (gz_w z2) of
                        (r, w') \<Rightarrow> (r, z2\<lparr>gz_w := w', gz_err := r\<rparr>))))"

text \<open>
  \<open>tar.Writer\<close>: \<open>tw_nb\<close> is what the current entry may still take (its \<open>regFileWriter\<close>),
  \<open>tw_pad\<close> the padding owed after it, \<open>tw_err\<close> the error that sticks.
\<close>

record tar_Writer =
  tw_w :: gzip_Writer
  tw_nb :: nat
  tw_pad :: nat
  tw_err :: "error option"

definition tar_NewWriter :: "gzip_Writer \<Rightarrow> tar_Writer" where
  "tar_NewWriter z = \<lparr>tw_w = z, tw_nb = 0, tw_pad = 0, tw_err = None\<rparr>"

definition blockPadding :: "nat \<Rightarrow> nat" where
  "blockPadding n = (512 - n mod 512) mod 512"

definition isHeaderOnlyType :: "char \<Rightarrow> bool" where
  "isHeaderOnlyType flag = (flag \<in> set ''123456'')"

definition tw_Flush :: "tar_Writer \<Rightarrow> error option \<times> tar_Writer" where
  "tw_Flush tw =
     (if tw_err tw \<noteq> None then (tw_err tw, tw)
      else if 0 < tw_nb tw then (Some (ErrMissedWriting (tw_nb tw)), tw)
      else (case gz_Write (if tw_pad tw = 0 then [] else [Padding (tw_pad tw)]) (tw_w tw) of
              (Some e, z) \<Rightarrow> (Some e, tw\<lparr>tw_w := z, tw_err := Some e\<rparr>)
            | (None, z) \<Rightarrow> (None, tw\<lparr>tw_w := z, tw_pad := 0\<rparr>)))"

text \<open>What \<open>WriteHeader\<close> makes of the header before it encodes it: the legacy type flag
  \<open>TypeRegA\<close> becomes \<open>TypeDir\<close> for a name that ends in a slash and \<open>TypeReg\<close> otherwise,
  and with no format chosen the access and change times are dropped.\<close>

definition prepare_header :: "Header \<Rightarrow> Header" where
  "prepare_header hdr =
     (let h = (if Typeflag hdr = TypeRegA then
                 (if strings_HasSuffix (Name hdr) ''/'' then hdr\<lparr>Typeflag := TypeDir\<rparr>
                  else hdr\<lparr>Typeflag := TypeReg\<rparr>)
               else hdr)
      in h\<lparr>AccessTime := 0, ChangeTime := 0\<rparr>)"

text \<open>The header as its block holds it: a modification time that is the zero Time is written
  as the start of the Unix epoch, January 1, 1970.\<close>

definition unix_epoch :: time where
  "unix_epoch = 62135596800"

definition encoded :: "Header \<Rightarrow> Header" where
  "encoded h = h\<lparr>ModTime := (if IsZero (ModTime h) then unix_epoch else ModTime h)\<rparr>"

text \<open>
  The headers that \<open>WriteHeader\<close> can encode (\<open>Header.allowedFormats\<close>). A NUL byte in a
  name excludes every format. A number that does not fit the octal field excludes USTAR, and
  PAX too when PAX has no record for it, which is so for the mode. A number that does not
  fit the field in base 256, and an owner or group name of more than 32 bytes, exclude GNU.
  USTAR takes only headers that PAX takes as well, so the header has a format when PAX or
  GNU takes it. A file's name must not end in a slash, the types of the extended headers
  cannot be written, the size of a file must not be negative, and a global header has
  nothing but its name and is for PAX alone.
\<close>

definition hasNUL :: "string \<Rightarrow> bool" where
  "hasNUL s = (CHR 0x00 \<in> set s)"

definition fitsInOctal :: "nat \<Rightarrow> int \<Rightarrow> bool" where
  "fitsInOctal n x = (0 \<le> x \<and> (22 \<le> n \<or> x < 2 ^ (3 * (n - 1))))"

definition fitsInBase256 :: "nat \<Rightarrow> int \<Rightarrow> bool" where
  "fitsInBase256 n x = (9 \<le> n \<or> (- (2 ^ (8 * (n - 1))) \<le> x \<and> x < 2 ^ (8 * (n - 1))))"

definition fits_PAX :: "Header \<Rightarrow> bool" where
  "fits_PAX h =
     (\<not> hasNUL (Name h) \<and> \<not> hasNUL (Uname h) \<and> \<not> hasNUL (Gname h)
      \<and> fitsInOctal 8 (Mode h))"

definition fits_GNU :: "Header \<Rightarrow> bool" where
  "fits_GNU h =
     (\<not> hasNUL (Name h) \<and> \<not> hasNUL (Uname h) \<and> \<not> hasNUL (Gname h)
      \<and> length (Uname h) \<le> 32 \<and> length (Gname h) \<le> 32
      \<and> fitsInBase256 8 (Mode h) \<and> fitsInBase256 8 (Uid h) \<and> fitsInBase256 8 (Gid h))"

definition header_encodable :: "Header \<Rightarrow> bool" where
  "header_encodable h =
     (\<not> (Typeflag h \<in> set ''0346S'' \<and> strings_HasSuffix (Name h) ''/'')
      \<and> Typeflag h \<notin> set ''xLK''
      \<and> \<not> (Typeflag h = CHR ''g'' \<and> h \<noteq> Header0\<lparr>Typeflag := CHR ''g'', Name := Name h\<rparr>)
      \<and> (isHeaderOnlyType (Typeflag h) \<or> 0 \<le> Size h)
      \<and> (fits_PAX h \<or> (Typeflag h \<noteq> CHR ''g'' \<and> fits_GNU h)))"

text \<open>\<open>WriteHeader\<close>: finish the entry before, then write the header block. A header that
  cannot be encoded is refused without the error sticking; an error of the underlying
  writer sticks.\<close>

definition tw_WriteHeader :: "Header \<Rightarrow> tar_Writer \<Rightarrow> error option \<times> tar_Writer" where
  "tw_WriteHeader hdr tw =
     (case tw_Flush tw of
        (Some e, tw1) \<Rightarrow> (Some e, tw1)
      | (None, tw1) \<Rightarrow>
          let h = prepare_header hdr
          in if \<not> header_encodable h then (Some ErrInvalidHeader, tw1)
             else (case tw_Flush tw1 of
                     (Some e, tw2) \<Rightarrow> (Some e, tw2\<lparr>tw_err := Some e\<rparr>)
                   | (None, tw2) \<Rightarrow>
                       (case gz_Write [HeaderBlock (encoded h)] (tw_w tw2) of
                          (Some e, z) \<Rightarrow> (Some e, tw2\<lparr>tw_w := z, tw_err := Some e\<rparr>)
                        | (None, z) \<Rightarrow>
                            let size = (if isHeaderOnlyType (Typeflag h) then 0 else nat (Size h))
                            in (None, tw2\<lparr>tw_w := z, tw_nb := size,
                                            tw_pad := blockPadding size\<rparr>))))"

text \<open>\<open>Write\<close>: at most what the entry may still take goes to the underlying writer; more
  than that is \<open>ErrWriteTooLong\<close>, which does not stick.\<close>

definition tw_Write :: "bytes \<Rightarrow> tar_Writer \<Rightarrow> (nat \<times> error option) \<times> tar_Writer" where
  "tw_Write b tw =
     (if tw_err tw \<noteq> None then ((0, tw_err tw), tw)
      else
        let overwrite = (tw_nb tw < length b);
            b' = take (tw_nb tw) b
        in if b' \<noteq> [] then
             (case gz_Write [Content b'] (tw_w tw) of
                (Some e, z) \<Rightarrow> ((0, Some e), tw\<lparr>tw_w := z, tw_err := Some e\<rparr>)
              | (None, z) \<Rightarrow>
                  ((length b', if overwrite then Some ErrWriteTooLong else None),
                   tw\<lparr>tw_w := z, tw_nb := tw_nb tw - length b'\<rparr>))
           else ((0, if overwrite then Some ErrWriteTooLong else None), tw))"

text \<open>\<open>Close\<close>: flush, then the two zero blocks of the trailer, stopping at an error.\<close>

definition tw_Close :: "tar_Writer \<Rightarrow> error option \<times> tar_Writer" where
  "tw_Close tw =
     (if tw_err tw = Some ErrWriteAfterClose then (None, tw)
      else if tw_err tw \<noteq> None then (tw_err tw, tw)
      else (case tw_Flush tw of
              (Some e, tw1) \<Rightarrow> (Some e, tw1\<lparr>tw_err := Some ErrWriteAfterClose\<rparr>)
            | (None, tw1) \<Rightarrow>
                (case gz_Write [ZeroBlock] (tw_w tw1) of
                   (Some e, z) \<Rightarrow> (Some e, tw1\<lparr>tw_w := z, tw_err := Some ErrWriteAfterClose\<rparr>)
                 | (None, z) \<Rightarrow>
                     (case gz_Write [ZeroBlock] z of
                        (r, z') \<Rightarrow> (r, tw1\<lparr>tw_w := z', tw_err := Some ErrWriteAfterClose\<rparr>)))))"

text \<open>\<open>io.Copy(tw, b)\<close> from a \<open>bytes.Buffer\<close>: one \<open>Write\<close> of all its bytes, none for an
  empty buffer. The call drains the buffer of what was written; \<open>b\<close> here is the content
  the buffer has at the call, and its rest is not kept. From an \<open>*os.File\<close> it is the same
  from the file's content (the library moves it in pieces of 32 KiB; the pieces are kept as
  one here), and a nil file, which is what a failed \<open>os.Open\<close> leaves, is
  \<open>os.ErrInvalid\<close>.\<close>

definition io_Copy :: "bytes \<Rightarrow> tar_Writer \<Rightarrow> (nat \<times> error option) \<times> tar_Writer" where
  "io_Copy b tw =
     (if b = [] then ((0, None), tw)
      else (case tw_Write b tw of
              ((n, Some e), tw') \<Rightarrow> ((n, Some e), tw')
            | ((n, None), tw') \<Rightarrow>
                if n \<noteq> length b then ((n, Some ErrShortWrite), tw') else ((n, None), tw')))"

definition io_Copy_file :: "bytes option \<Rightarrow> tar_Writer \<Rightarrow> (nat \<times> error option) \<times> tar_Writer" where
  "io_Copy_file f tw =
     (case f of None \<Rightarrow> ((0, Some ErrInvalid), tw) | Some c \<Rightarrow> io_Copy c tw)"

text \<open>The two deferred calls, in the order Go runs them: \<open>tw.Close()\<close>, then
  \<open>gzw.Close()\<close>. What they return is given back here next to the sinks; the code drops it.\<close>

definition run_deferred :: "tar_Writer \<Rightarrow> (error option \<times> error option) \<times> sink list" where
  "run_deferred tw =
     (case tw_Close tw of
        (e1, tw') \<Rightarrow> (case gz_Close (tw_w tw') of (e2, z) \<Rightarrow> ((e1, e2), gz_w z)))"

section \<open>Bytes\<close>

text \<open>The two readings of \<open>time.Now()\<close> in \<open>Bytes\<close>: formatted as \<open>20060102T150405\<close>, and
  rounded to the second.\<close>

record clock =
  now_stamp :: string
  now_rounded :: time

definition Bytes_opt :: "clock \<Rightarrow> Header option \<Rightarrow> Header" where
  "Bytes_opt clk opt =
     (case opt of
        None \<Rightarrow> Header0\<lparr>Name := now_stamp clk, Gname := ''user'', Uname := ''user'',
                        Mode := 420, ModTime := now_rounded clk\<rparr>
      | Some h \<Rightarrow> h)"

text \<open>The body of \<open>Bytes\<close> up to its \<open>return\<close>: the result of \<open>WriteHeader\<close> is dropped, the
  result of \<open>io.Copy\<close> is the result.\<close>

definition Bytes_body ::
  "clock \<Rightarrow> bytes \<Rightarrow> Header option \<Rightarrow> tar_Writer \<Rightarrow> (nat \<times> error option) \<times> tar_Writer" where
  "Bytes_body clk b opt tw =
     (let opt' = Bytes_opt clk opt;
          tw1 = snd (tw_WriteHeader
                  (Header0\<lparr>Name := Name opt', Size := int (length b), Uname := Uname opt',
                     Gname := Gname opt', Mode := Mode opt', ModTime := ModTime opt'\<rparr>) tw)
      in io_Copy b tw1)"

definition Bytes ::
  "nat \<Rightarrow> clock \<Rightarrow> bytes \<Rightarrow> Header option \<Rightarrow> sink list \<Rightarrow> (int \<times> error option) \<times> sink list" where
  "Bytes blk clk b opt w =
     (case Bytes_body clk b opt (tar_NewWriter (gzip_NewWriter blk w)) of
        ((n, err), tw) \<Rightarrow> ((int n, err), snd (run_deferred tw)))"

section \<open>Tar\<close>

text \<open>
  \<open>filepath.Walk\<close>, as the script of the calls it makes to its function. \<open>Call v next skip\<close>
  calls the function at \<open>v\<close> (the walked path, the file's info from \<open>Lstat\<close>, the error of
  the walk there) and goes on with \<open>next\<close> when the function returns nil, and with \<open>skip\<close>
  when it returns \<open>filepath.SkipDir\<close>: at a directory that is the walk without what lies in
  it, at a file the walk without the rest of the file's directory. When the function returns
  \<open>filepath.SkipAll\<close> the walk ends. \<open>Walk\<close> returns nil when the walk has ended in one of
  these ways, and any other error of the function at once.
\<close>

record visit =
  v_file :: string
  v_info :: FileInfo
  v_err :: "error option"

datatype 'v script = Done | Call 'v "'v script" "'v script"

fun Walk ::
  "visit script \<Rightarrow> (visit \<Rightarrow> tar_Writer \<Rightarrow> error option \<times> tar_Writer) \<Rightarrow> tar_Writer
     \<Rightarrow> error option \<times> tar_Writer" where
  "Walk Done fn tw = (None, tw)"
| "Walk (Call v next skip) fn tw =
     (case fn v tw of
        (None, tw') \<Rightarrow> Walk next fn tw'
      | (Some e, tw') \<Rightarrow>
          if e = SkipDir then Walk skip fn tw'
          else if e = SkipAll then (None, tw')
          else (Some e, tw'))"

text \<open>The calls of a walk whose function returns nil every time.\<close>

fun script_calls :: "'v script \<Rightarrow> 'v list" where
  "script_calls Done = []"
| "script_calls (Call v next skip) = v # script_calls next"

text \<open>
  What the file system answers to \<open>Tar\<close>: \<open>os.Stat\<close>, which follows symbolic links,
  \<open>os.Open\<close> (the content of the file, or \<open>None\<close> when it cannot be opened) and
  \<open>filepath.Walk\<close>.
\<close>

record filesystem =
  fs_Stat :: "string \<Rightarrow> error + FileInfo"
  fs_Open :: "string \<Rightarrow> bytes option"
  fs_Walk :: "string \<Rightarrow> visit script"

definition Tar_opt :: "Header option \<Rightarrow> Header" where
  "Tar_opt opt =
     (case opt of
        None \<Rightarrow> Header0\<lparr>Mode := 420, Gname := ''user'', Uname := ''user''\<rparr>
      | Some h \<Rightarrow> h)"

text \<open>The name of a walked file's entry (line 164 of the source).\<close>

definition entry_name :: "string \<Rightarrow> string \<Rightarrow> string" where
  "entry_name src file = strings_TrimPrefix (strings_Replace file src []) [Separator]"

text \<open>The header of a walked file's entry (lines 147 to 164).\<close>

definition walk_header :: "string \<Rightarrow> Header \<Rightarrow> visit \<Rightarrow> error + Header" where
  "walk_header src opt v =
     (case FileInfoHeader (v_info v) (fi_Name (v_info v)) of
        Inl e \<Rightarrow> Inl e
      | Inr header \<Rightarrow>
          let h1 = header\<lparr>Gname := Gname opt, Uname := Uname opt, Mode := Mode opt\<rparr>;
              h2 = (if \<not> IsZero (ModTime opt) then
                      h1\<lparr>AccessTime := ModTime opt, ChangeTime := ModTime opt,
                         ModTime := ModTime opt\<rparr>
                    else h1)
          in Inr (h2\<lparr>Name := entry_name src (v_file v)\<rparr>))"

text \<open>The function that \<open>Tar\<close> hands to \<open>filepath.Walk\<close> (lines 134 to 177).\<close>

definition walkFn ::
  "string \<Rightarrow> Header \<Rightarrow> filesystem \<Rightarrow> visit \<Rightarrow> tar_Writer \<Rightarrow> error option \<times> tar_Writer" where
  "walkFn src opt fs v tw =
     (if v_err v \<noteq> None then (v_err v, tw)
      else if \<not> IsRegular (fi_Mode (v_info v)) then (None, tw)
      else (case walk_header src opt v of
              Inl e \<Rightarrow> (Some e, tw)
            | Inr header \<Rightarrow>
                (case tw_WriteHeader header tw of
                   (Some e, tw1) \<Rightarrow> (Some e, tw1)
                 | (None, tw1) \<Rightarrow>
                     (case io_Copy_file (fs_Open fs (v_file v)) tw1 of
                        ((n, err), tw2) \<Rightarrow> (err, tw2)))))"

text \<open>The header of the entry in single-file mode (lines 117 to 123).\<close>

definition file_header :: "string \<Rightarrow> Header \<Rightarrow> FileInfo \<Rightarrow> Header" where
  "file_header src opt info =
     Header0\<lparr>Name := Base src, Size := fi_Size info, Uname := Uname opt,
       Gname := Gname opt, Mode := Mode opt\<rparr>"

text \<open>The body of \<open>Tar\<close> after the writers are set up, up to its \<open>return\<close>s.\<close>

definition Tar_body ::
  "string \<Rightarrow> Header \<Rightarrow> filesystem \<Rightarrow> FileInfo \<Rightarrow> tar_Writer \<Rightarrow> error option \<times> tar_Writer" where
  "Tar_body src opt fs info tw =
     (if \<not> IsDir (fi_Mode info) then
        (if \<not> IsRegular (fi_Mode info) then (None, tw)
         else
           let tw1 = snd (tw_WriteHeader (file_header src opt info) tw)
           in (case io_Copy_file (fs_Open fs src) tw1 of
                 ((n, err), tw2) \<Rightarrow> (err, tw2)))
      else Walk (fs_Walk fs src) (walkFn src opt fs) tw)"

definition Tar ::
  "nat \<Rightarrow> string \<Rightarrow> Header option \<Rightarrow> filesystem \<Rightarrow> sink list \<Rightarrow> error option \<times> sink list" where
  "Tar blk src opt fs writers =
     (case fs_Stat fs src of
        Inl err \<Rightarrow> (Some err, writers)
      | Inr info \<Rightarrow>
          (case Tar_body src (Tar_opt opt) fs info (tar_NewWriter (gzip_NewWriter blk writers)) of
             (err, tw) \<Rightarrow> (err, snd (run_deferred tw))))"

text \<open>
  A file system given as a tree at the path \<open>src\<close>. \<open>filepath.Walk\<close> calls its function on
  the root under the name it was given, and on a directory's files, in the order of their
  names, under the directory's path joined with the file's name; it reads the files with
  \<open>Lstat\<close>, so it sees a symbolic link as one. \<open>os.Stat\<close> and \<open>os.Open\<close> know the paths of
  the walk and follow links; the links of such a tree lead to no file, so both fail on them.
\<close>

datatype node = Node FileInfo bytes "node list"

fun node_info :: "node \<Rightarrow> FileInfo" where
  "node_info (Node fi c ks) = fi"

fun walk_node :: "string \<Rightarrow> node \<Rightarrow> (visit \<times> bytes) list" where
  "walk_node path (Node fi c ks) =
     (\<lparr>v_file = path, v_info = fi, v_err = None\<rparr>, c)
       # (if IsDir (fi_Mode fi) then
            concat (map (\<lambda>k. walk_node (Join path (fi_Name (node_info k))) k) ks)
          else [])"

text \<open>The script of the walk of a node: \<open>next\<close> is the walk after the node and what lies in
  it, \<open>up\<close> the walk after the directory that the node is in.\<close>

fun walk_script :: "string \<Rightarrow> node \<Rightarrow> visit script \<Rightarrow> visit script \<Rightarrow> visit script"
  and walk_files :: "string \<Rightarrow> node list \<Rightarrow> visit script \<Rightarrow> visit script" where
  "walk_script path (Node fi c ks) next up =
     (if IsDir (fi_Mode fi) then
        Call \<lparr>v_file = path, v_info = fi, v_err = None\<rparr> (walk_files path ks next) next
      else Call \<lparr>v_file = path, v_info = fi, v_err = None\<rparr> next up)"
| "walk_files path [] next = next"
| "walk_files path (k # ks) next =
     walk_script (Join path (fi_Name (node_info k))) k (walk_files path ks next) next"

text \<open>The nil \<open>FileInfo\<close> that the function gets with an error of \<open>Lstat\<close>.\<close>

definition no_info :: FileInfo where
  "no_info = \<lparr>fi_Name = [], fi_Size = 0, fi_Mode = 0, fi_ModTime = 0, fi_Atime = 0,
     fi_Ctime = 0, fi_Uid = 0, fi_Gid = 0, fi_Uname = [], fi_Gname = []\<rparr>"

definition tree_fs :: "string \<Rightarrow> node \<Rightarrow> filesystem" where
  "tree_fs src t =
     \<lparr>fs_Stat = (\<lambda>p. case find (\<lambda>(v, c). v_file v = p) (walk_node src t) of
                        None \<Rightarrow> Inl ENOENT
                      | Some (v, c) \<Rightarrow>
                          if fi_Mode (v_info v) AND ModeSymlink \<noteq> 0 then Inl ENOENT
                          else Inr (v_info v)),
      fs_Open = (\<lambda>p. case find (\<lambda>(v, c). v_file v = p) (walk_node src t) of
                        None \<Rightarrow> None
                      | Some (v, c) \<Rightarrow>
                          if fi_Mode (v_info v) AND ModeSymlink \<noteq> 0 then None
                          else if IsDir (fi_Mode (v_info v)) then Some []
                          else Some c),
      fs_Walk = (\<lambda>p. if p = src then walk_script src t Done Done
                      else Call \<lparr>v_file = p, v_info = no_info, v_err = Some ENOENT\<rparr> Done Done)\<rparr>"

text \<open>A regular file and a directory with the given mode bits, for the examples.\<close>

definition reg_file :: "string \<Rightarrow> FileMode \<Rightarrow> bytes \<Rightarrow> node" where
  "reg_file name m c =
     Node \<lparr>fi_Name = name, fi_Size = int (length c), fi_Mode = m, fi_ModTime = 63800000000,
           fi_Atime = 63800000100, fi_Ctime = 63800000000, fi_Uid = 1000, fi_Gid = 1000,
           fi_Uname = ''alice'', fi_Gname = ''staff''\<rparr> c []"

definition directory :: "string \<Rightarrow> node list \<Rightarrow> node" where
  "directory name ks =
     Node \<lparr>fi_Name = name, fi_Size = 4096, fi_Mode = ModeDir OR 493, fi_ModTime = 63800000000,
           fi_Atime = 63800000100, fi_Ctime = 63800000000, fi_Uid = 1000, fi_Gid = 1000,
           fi_Uname = ''alice'', fi_Gname = ''staff''\<rparr> [] ks"

definition open_sink :: sink where
  "open_sink = \<lparr>received = [], quota = None, failure = EACCES, refused = False\<rparr>"

definition limited_sink :: "nat \<Rightarrow> error \<Rightarrow> sink" where
  "limited_sink n e = \<lparr>received = [], quota = Some n, failure = e, refused = False\<rparr>"

section \<open>Reading a stream: gzip reader and tar reader\<close>

text \<open>\<open>gzip.NewReader\<close> reads the gzip header at once: an empty input is \<open>io.EOF\<close>, anything
  but a header is \<open>gzip.ErrHeader\<close>. What follows inflates to blocks up to the trailer; the
  second component says how the inflated stream ends: \<open>EOF\<close> after the trailer, an error
  when the input stops or is damaged before it.\<close>

fun inflate :: "frame list \<Rightarrow> block list \<times> error" where
  "inflate [] = ([], ErrUnexpectedEOF)"
| "inflate (Deflate bs # fs) = (case inflate fs of (xs, e) \<Rightarrow> (bs @ xs, e))"
| "inflate [GzipTrailer] = ([], EOF)"
| "inflate (GzipTrailer # GzipHeader # fs) = inflate fs"
| "inflate (GzipTrailer # f # fs) = ([], ErrHeader)"
| "inflate (GzipHeader # fs) = ([], ErrHeader)"

text \<open>\<open>tar.Reader\<close>: the blocks not yet read, how the stream under them ends, what is left
  of the current entry's content, and the error that sticks.\<close>

record tar_Reader =
  tr_blocks :: "block list"
  tr_end :: error
  tr_nb :: nat
  tr_err :: "error option"

definition gzip_NewReader :: "frame list \<Rightarrow> error + (block list \<times> error)" where
  "gzip_NewReader r =
     (case r of
        [] \<Rightarrow> Inl EOF
      | GzipHeader # fs \<Rightarrow> Inr (inflate fs)
      | _ # fs \<Rightarrow> Inl ErrHeader)"

definition tar_NewReader :: "block list \<times> error \<Rightarrow> tar_Reader" where
  "tar_NewReader gzr = \<lparr>tr_blocks = fst gzr, tr_end = snd gzr, tr_nb = 0, tr_err = None\<rparr>"

text \<open>Up to \<open>n\<close> bytes of content from the front of the blocks, and the blocks left.\<close>

fun take_content :: "nat \<Rightarrow> block list \<Rightarrow> bytes \<times> block list" where
  "take_content n [] = ([], [])"
| "take_content n (Content c # bs) =
     (if n = 0 then ([], Content c # bs)
      else if length c \<le> n then
        (case take_content (n - length c) bs of (d, r) \<Rightarrow> (c @ d, r))
      else (take n c, Content (drop n c) # bs))"
| "take_content n (b # bs) = ([], b # bs)"

definition stream_error :: "tar_Reader \<Rightarrow> block list \<Rightarrow> error" where
  "stream_error tr rest =
     (if rest = [] \<and> tr_end tr \<noteq> EOF then tr_end tr else ErrUnexpectedEOF)"

text \<open>The header as the reader returns it: the legacy type flag is replaced as on writing.\<close>

definition read_header :: "Header \<Rightarrow> Header" where
  "read_header h =
     (if Typeflag h = TypeRegA then
        (if strings_HasSuffix (Name h) ''/'' then h\<lparr>Typeflag := TypeDir\<rparr>
         else h\<lparr>Typeflag := TypeReg\<rparr>)
      else h)"

text \<open>
  \<open>Next\<close>: an error that stuck is returned again, with no header. Otherwise the rest of
  the current entry and its padding are passed over and a header is read: the end of the
  stream at a block boundary, or two zero blocks, is \<open>io.EOF\<close>. Whenever the error is not
  nil the header is nil, and the error sticks.
\<close>

definition tr_Next :: "tar_Reader \<Rightarrow> (Header option \<times> error option) \<times> tar_Reader" where
  "tr_Next tr =
     (if tr_err tr \<noteq> None then ((None, tr_err tr), tr)
      else
        (case take_content (tr_nb tr) (tr_blocks tr) of
           (d, rest) \<Rightarrow>
             if length d < tr_nb tr then
               ((None, Some (stream_error tr rest)),
                tr\<lparr>tr_blocks := rest, tr_err := Some (stream_error tr rest)\<rparr>)
             else
               (case (case rest of Padding p # rest' \<Rightarrow> rest' | _ \<Rightarrow> rest) of
                  [] \<Rightarrow> ((None, Some (tr_end tr)),
                         tr\<lparr>tr_blocks := [], tr_nb := 0, tr_err := Some (tr_end tr)\<rparr>)
                | HeaderBlock h # bs \<Rightarrow>
                    ((Some (read_header h), None),
                     tr\<lparr>tr_blocks := bs,
                        tr_nb := (if isHeaderOnlyType (Typeflag (read_header h)) then 0
                                  else nat (Size h))\<rparr>)
                | ZeroBlock # [] \<Rightarrow>
                    ((None, Some (tr_end tr)),
                     tr\<lparr>tr_blocks := [], tr_nb := 0, tr_err := Some (tr_end tr)\<rparr>)
                | ZeroBlock # ZeroBlock # bs \<Rightarrow>
                    ((None, Some EOF), tr\<lparr>tr_blocks := bs, tr_nb := 0, tr_err := Some EOF\<rparr>)
                | b # bs \<Rightarrow>
                    ((None, Some ErrHeader),
                     tr\<lparr>tr_blocks := b # bs, tr_nb := 0, tr_err := Some ErrHeader\<rparr>))))"

text \<open>\<open>io.Copy(f, tr)\<close> reads the current entry's content to its end: the bytes read, and
  the error when the stream stops short of the size in the header.\<close>

definition tr_ReadAll :: "tar_Reader \<Rightarrow> (bytes \<times> error option) \<times> tar_Reader" where
  "tr_ReadAll tr =
     (if tr_err tr \<noteq> None then (([], tr_err tr), tr)
      else
        (case take_content (tr_nb tr) (tr_blocks tr) of
           (d, rest) \<Rightarrow>
             if length d < tr_nb tr then
               ((d, Some (stream_error tr rest)),
                tr\<lparr>tr_blocks := rest, tr_nb := tr_nb tr - length d,
                   tr_err := Some (stream_error tr rest)\<rparr>)
             else ((d, None), tr\<lparr>tr_blocks := rest, tr_nb := 0\<rparr>)))"

section \<open>The file system that Untar writes to\<close>

text \<open>The files and directories by their cleaned paths, each with its permission bits. The
  root and the working directory (\<open>/\<close> and \<open>.\<close>) are there without an entry. Access rights
  do not fail here.\<close>

datatype entry = FileEntry bytes FileMode | DirEntry FileMode

type_synonym disk = "string \<rightharpoonup> entry"

definition is_dir :: "disk \<Rightarrow> string \<Rightarrow> bool" where
  "is_dir d p = (p = ''.'' \<or> p = ''/'' \<or> (case d p of Some (DirEntry m) \<Rightarrow> True | _ \<Rightarrow> False))"

definition exists_path :: "disk \<Rightarrow> string \<Rightarrow> bool" where
  "exists_path d p = (p = ''.'' \<or> p = ''/'' \<or> d p \<noteq> None)"

text \<open>\<open>os.Stat(target)\<close>, of which the code uses the error only.\<close>

definition os_Stat :: "disk \<Rightarrow> string \<Rightarrow> error option" where
  "os_Stat d p = (if exists_path d p then None else Some ENOENT)"

text \<open>The paths of a path's leading elements, shortest first, the path itself last;
  \<open>filepath.Dir\<close> is the one before the last.\<close>

definition path_prefixes :: "string \<Rightarrow> string list" where
  "path_prefixes p =
     (let es = filter (\<lambda>e. e \<noteq> []) (split_path p)
      in map (\<lambda>k. (if is_rooted p then [Separator] else []) @ join_path (take k es))
           [1 ..< Suc (length es)])"

definition Dir :: "string \<Rightarrow> string" where
  "Dir p =
     (case rev (path_prefixes p) of
        _ # q # _ \<Rightarrow> q
      | _ \<Rightarrow> if is_rooted p then [Separator] else ''.'')"

text \<open>The permission bits that a new file or directory gets: those of the mode asked for
  that the umask of the process leaves.\<close>

definition create_mode :: "FileMode \<Rightarrow> FileMode \<Rightarrow> FileMode" where
  "create_mode um perm = (perm AND ModePerm) AND NOT um"

text \<open>\<open>os.MkdirAll\<close>, under the umask \<open>um\<close>: every missing directory on the way is made, from
  the top; a file on the way is \<open>ENOTDIR\<close>, and what was made before stays.\<close>

fun mkdir_each :: "FileMode \<Rightarrow> string list \<Rightarrow> FileMode \<Rightarrow> disk \<Rightarrow> error option \<times> disk" where
  "mkdir_each um [] perm d = (None, d)"
| "mkdir_each um (p # ps) perm d =
     (if is_dir d p then mkdir_each um ps perm d
      else if d p \<noteq> None then (Some ENOTDIR, d)
      else mkdir_each um ps perm (d(p \<mapsto> DirEntry (create_mode um perm))))"

definition os_MkdirAll :: "FileMode \<Rightarrow> string \<Rightarrow> FileMode \<Rightarrow> disk \<Rightarrow> error option \<times> disk" where
  "os_MkdirAll um p perm d = (if p = [] then (Some ENOENT, d) else mkdir_each um (path_prefixes p) perm d)"

text \<open>\<open>os.OpenFile(target, os.O_CREATE|os.O_WRONLY, mode)\<close>, under the umask \<open>um\<close>: a directory cannot be opened
  for writing; a file that is there is opened as it is, with its content; a file that is
  not there is made empty, in a directory that must be there.\<close>

definition os_OpenFile :: "FileMode \<Rightarrow> string \<Rightarrow> FileMode \<Rightarrow> disk \<Rightarrow> error + disk" where
  "os_OpenFile um p perm d =
     (if is_dir d p then Inl EISDIR
      else (case d p of
              Some e \<Rightarrow> Inr d
            | None \<Rightarrow>
                if is_dir d (Dir p) then Inr (d(p \<mapsto> FileEntry [] (create_mode um perm)))
                else if exists_path d (Dir p) then Inl ENOTDIR
                else Inl ENOENT))"

text \<open>Writing \<open>b\<close> through a handle that was just opened: from the start of the file, over
  what is there, leaving what lies beyond.\<close>

definition file_Write :: "string \<Rightarrow> bytes \<Rightarrow> disk \<Rightarrow> disk" where
  "file_Write p b d =
     (case d p of
        Some (FileEntry c m) \<Rightarrow> d(p \<mapsto> FileEntry (b @ drop (length b) c) m)
      | _ \<Rightarrow> d)"

text \<open>\<open>os.FileMode(header.Mode)\<close>: the low 32 bits.\<close>

definition FileMode_of :: "int \<Rightarrow> FileMode" where
  "FileMode_of m = word_of_int m"

section \<open>Untar\<close>

text \<open>What the loop does with an entry whose header it has read (lines 206 to 227): the
  error it returns with, if it does, the reader and the disk after it.\<close>

definition extract_entry ::
  "FileMode \<Rightarrow> string \<Rightarrow> Header \<Rightarrow> tar_Reader \<Rightarrow> disk \<Rightarrow> error option \<times> tar_Reader \<times> disk" where
  "extract_entry um dst header tr d =
     (let target = Join dst (Name header)
      in if Typeflag header = TypeDir then
           (if os_Stat d target \<noteq> None then
              (case os_MkdirAll um target (FileMode_of (Mode header)) d of
                 (Some err, d') \<Rightarrow> (Some err, tr, d')
               | (None, d') \<Rightarrow> (None, tr, d'))
            else (None, tr, d))
         else if Typeflag header = TypeReg then
           (case os_OpenFile um target (FileMode_of (Mode header)) d of
              Inl err \<Rightarrow> (Some err, tr, d)
            | Inr d1 \<Rightarrow>
                (case tr_ReadAll tr of
                   ((b, Some err), tr') \<Rightarrow> (Some err, tr', file_Write target b d1)
                 | ((b, None), tr') \<Rightarrow> (None, tr', file_Write target b d1)))
         else (None, tr, d))"

text \<open>The loop of \<open>Untar\<close> (lines 192 to 228). The cases of the \<open>switch\<close> are tried in the
  order of the source: the nil header first. The loop has no bound, so a run that does not
  return is the value \<open>None\<close>.\<close>

partial_function (option) Untar_loop ::
  "FileMode \<Rightarrow> string \<Rightarrow> tar_Reader \<Rightarrow> disk \<Rightarrow> (error option \<times> disk) option" where
  "Untar_loop um dst tr d =
     (case tr_Next tr of
        ((header, err), tr1) \<Rightarrow>
          (case header of
             None \<Rightarrow> Untar_loop um dst tr1 d
           | Some h \<Rightarrow>
               if err = Some EOF then Some (None, d)
               else if err \<noteq> None then Some (err, d)
               else (case extract_entry um dst h tr1 d of
                       (Some e, tr2, d2) \<Rightarrow> Some (Some e, d2)
                     | (None, tr2, d2) \<Rightarrow> Untar_loop um dst tr2 d2)))"

definition Untar :: "FileMode \<Rightarrow> string \<Rightarrow> frame list \<Rightarrow> disk \<Rightarrow> (error option \<times> disk) option" where
  "Untar um dst r d =
     (case gzip_NewReader r of
        Inl err \<Rightarrow> Some (Some err, d)
      | Inr gzr \<Rightarrow> Untar_loop um dst (tar_NewReader gzr) d)"

text \<open>The same loop cut off after \<open>n\<close> rounds, with the disk it has reached: \<open>Inl\<close> when
  the loop is still running then, \<open>Inr\<close> when it has returned.\<close>

fun Untar_rounds ::
  "FileMode \<Rightarrow> nat \<Rightarrow> string \<Rightarrow> tar_Reader \<Rightarrow> disk \<Rightarrow> disk + (error option \<times> disk)" where
  "Untar_rounds um 0 dst tr d = Inl d"
| "Untar_rounds um (Suc n) dst tr d =
     (case tr_Next tr of
        ((header, err), tr1) \<Rightarrow>
          (case header of
             None \<Rightarrow> Untar_rounds um n dst tr1 d
           | Some h \<Rightarrow>
               if err = Some EOF then Inr (None, d)
               else if err \<noteq> None then Inr (err, d)
               else (case extract_entry um dst h tr1 d of
                       (Some e, tr2, d2) \<Rightarrow> Inr (Some e, d2)
                     | (None, tr2, d2) \<Rightarrow> Untar_rounds um n dst tr2 d2)))"

section \<open>Reading off what a sink holds\<close>

fun block_headers :: "block list \<Rightarrow> Header list" where
  "block_headers [] = []"
| "block_headers (HeaderBlock h # bs) = h # block_headers bs"
| "block_headers (b # bs) = block_headers bs"

definition stream_blocks :: "frame list \<Rightarrow> block list" where
  "stream_blocks r = (case gzip_NewReader r of Inl e \<Rightarrow> [] | Inr gzr \<Rightarrow> fst gzr)"

text \<open>The headers of the entries in the archive that a sink has received.\<close>

definition archived :: "sink \<Rightarrow> Header list" where
  "archived s = block_headers (stream_blocks (received s))"

text \<open>A path lies within a root when it is the root or continues it after a separator.\<close>

definition within :: "string \<Rightarrow> string \<Rightarrow> bool" where
  "within root p = (p = root \<or> prefix (root @ [Separator]) p)"

section \<open>Examples and notions used in the statements\<close>

text \<open>A clock reading, a buffer and a directory tree for the examples.\<close>

definition sample_clock :: clock where
  "sample_clock = \<lparr>now_stamp = ''20240101T000000'', now_rounded = 63839664000\<rparr>"

definition test_content :: bytes where
  "test_content = ''test file\<newline>line1\<newline>line2\<newline>''"

definition data_tree :: node where
  "data_tree = directory ''data'' [directory ''sub'' [reg_file ''data.txt'' 420 ''hello'']]"

text \<open>The same tree with every time stamp set to \<open>t\<close>.\<close>

fun touched :: "time \<Rightarrow> node \<Rightarrow> node" where
  "touched t (Node fi c ks) =
     Node (fi\<lparr>fi_ModTime := t, fi_Atime := t, fi_Ctime := t\<rparr>) c (map (touched t) ks)"

text \<open>Two file systems show the same tree at \<open>src\<close> when they differ at most in the time
  stamps of the files: the same answer of \<open>os.Stat\<close>, the same walk, the same contents.\<close>

definition forget_times :: "FileInfo \<Rightarrow> FileInfo" where
  "forget_times fi = fi\<lparr>fi_ModTime := 0, fi_Atime := 0, fi_Ctime := 0\<rparr>"

definition forget_visit :: "visit \<Rightarrow> visit" where
  "forget_visit v = v\<lparr>v_info := forget_times (v_info v)\<rparr>"

definition same_tree :: "filesystem \<Rightarrow> filesystem \<Rightarrow> string \<Rightarrow> bool" where
  "same_tree fs1 fs2 src =
     (map_sum id forget_times (fs_Stat fs1 src) = map_sum id forget_times (fs_Stat fs2 src)
      \<and> map_script forget_visit (fs_Walk fs1 src) = map_script forget_visit (fs_Walk fs2 src)
      \<and> fs_Open fs1 src = fs_Open fs2 src
      \<and> pred_script (\<lambda>v. fs_Open fs1 (v_file v) = fs_Open fs2 (v_file v)) (fs_Walk fs1 src))"



section \<open>Unfolding rules for the examples\<close>

lemmas pipe_defs = sink_Write_def gzip_NewWriter_def flate_Write_def flate_Close_def
  gz_Write_def gz_Close_def tar_NewWriter_def blockPadding_def isHeaderOnlyType_def
  tw_Flush_def prepare_header_def encoded_def header_encodable_def hasNUL_def fitsInOctal_def
  fitsInBase256_def fits_PAX_def fits_GNU_def unix_epoch_def IsZero_def
  tw_WriteHeader_def tw_Write_def
  tw_Close_def io_Copy_def io_Copy_file_def run_deferred_def Header0_def TypeReg_def
  TypeRegA_def TypeDir_def TypeSymlink_def strings_HasSuffix_def suffix_to_prefix Let_def

lemmas path_defs = Join_def Clean_def is_rooted_def Separator_def Base_def Dir_def
  path_prefixes_def within_def

lemmas tar_defs = Tar_def Tar_body_def Tar_opt_def file_header_def walkFn_def
  walk_header_def entry_name_def FileInfoHeader_def IsZero_def strings_TrimPrefix_def
  strings_Replace.simps

lemmas tree_defs = tree_fs_def no_info_def reg_file_def directory_def open_sink_def limited_sink_def
  sample_clock_def data_tree_def

lemmas read_defs = archived_def stream_blocks_def gzip_NewReader_def tar_NewReader_def
  tr_Next_def tr_ReadAll_def stream_error_def read_header_def

lemmas bytes_defs = Bytes_def Bytes_body_def Bytes_opt_def

lemmas untar_defs = extract_entry_def os_Stat_def os_MkdirAll_def os_OpenFile_def
  file_Write_def FileMode_of_def is_dir_def exists_path_def

section \<open>The loop of Untar returns only with an error\<close>

lemma tr_Next_None:
  assumes "tr_Next tr = ((None, err), tr1)"
  shows "tr_err tr1 \<noteq> None"
proof (cases "tr_err tr")
  case None
  with assms show ?thesis
    by (auto simp: tr_Next_def split: if_splits prod.splits list.splits block.splits)
next
  case (Some e)
  then have "tr_Next tr = ((None, tr_err tr), tr)" by (simp add: tr_Next_def)
  with assms have "tr1 = tr" by simp
  with Some show ?thesis by simp
qed

lemma tr_Next_Some: "tr_Next tr = ((Some h, err), tr1) \<Longrightarrow> err = None \<and> tr_err tr = None"
  by (auto simp: tr_Next_def split: if_splits prod.splits list.splits block.splits)

lemma tr_Next_stuck: "tr_err tr \<noteq> None \<Longrightarrow> tr_Next tr = ((None, tr_err tr), tr)"
  by (simp add: tr_Next_def)

text \<open>If the loop returns, the reader had a header to give at its first call, and what the
  loop returns is an error. The induction is over the unfolding of the loop.\<close>

lemma Untar_loop_returns:
  assumes "Untar_loop um dst tr d = Some r"
  shows "fst (fst (tr_Next tr)) \<noteq> None \<and> fst r \<noteq> None"
proof (rule Untar_loop.raw_induct
    [where P = "\<lambda>um dst tr d r. fst (fst (tr_Next tr)) \<noteq> None \<and> fst r \<noteq> None", OF _ assms],
    goal_cases)
  case (1 loop um dst tr d r)
  obtain header err tr1 where nx: "tr_Next tr = ((header, err), tr1)"
    by (metis prod.exhaust)
  show ?case
  proof (cases header)
    case None
    with nx 1(2) have "loop um dst tr1 d = Some r" by simp
    then have "fst (fst (tr_Next tr1)) \<noteq> None" using 1(1) by blast
    moreover have "tr_err tr1 \<noteq> None" using nx None tr_Next_None by blast
    ultimately show ?thesis by (simp add: tr_Next_stuck)
  next
    case (Some h)
    with nx have e: "err = None" using tr_Next_Some by blast
    obtain e2 tr2 d2 where ex: "extract_entry um dst h tr1 d = (e2, tr2, d2)"
      by (metis prod.exhaust)
    show ?thesis
    proof (cases e2)
      case None
      with nx Some e ex 1(2) have "loop um dst tr2 d2 = Some r" by simp
      then have "fst r \<noteq> None" using 1(1) by blast
      with nx Some show ?thesis by simp
    next
      case (Some e')
      with nx \<open>header = Some h\<close> e ex 1(2) have "r = (Some e', d2)" by simp
      with nx \<open>header = Some h\<close> show ?thesis by simp
    qed
  qed
qed

lemma Untar_loop_no_header:
  "fst (fst (tr_Next tr)) = None \<Longrightarrow> Untar_loop um dst tr d = None"
  using Untar_loop_returns [of um dst tr d] by (cases "Untar_loop um dst tr d") auto

text \<open>The loop cut off after some rounds is the same loop: what it returns, the loop
  returns.\<close>

lemma Untar_rounds_returns:
  "Untar_rounds um n dst tr d = Inr r \<Longrightarrow> Untar_loop um dst tr d = Some r"
proof (induction n arbitrary: tr d)
  case 0
  then show ?case by simp
next
  case (Suc n)
  obtain header err tr1 where nx: "tr_Next tr = ((header, err), tr1)" by (metis prod.exhaust)
  show ?case
  proof (cases header)
    case None
    with nx Suc.prems have "Untar_rounds um n dst tr1 d = Inr r" by simp
    then have "Untar_loop um dst tr1 d = Some r" by (rule Suc.IH)
    with nx None show ?thesis by (subst Untar_loop.simps) simp
  next
    case (Some h)
    obtain e2 tr2 d2 where ex: "extract_entry um dst h tr1 d = (e2, tr2, d2)" by (metis prod.exhaust)
    show ?thesis
    proof (cases "err = None \<and> e2 = None")
      case True
      with nx Some ex Suc.prems have "Untar_rounds um n dst tr2 d2 = Inr r" by simp
      then have "Untar_loop um dst tr2 d2 = Some r" by (rule Suc.IH)
      with nx Some ex True show ?thesis by (subst Untar_loop.simps) simp
    next
      case False
      with nx Some ex Suc.prems show ?thesis
        by (subst Untar_loop.simps) (auto split: if_splits)
    qed
  qed
qed

section \<open>What one entry does to the disk\<close>

lemma mkdir_each_keeps:
  "mkdir_each um ps perm d = (r, d') \<Longrightarrow> d q = Some e \<Longrightarrow> d' q = Some e"
proof (induction ps arbitrary: d)
  case Nil
  then show ?case by simp
next
  case (Cons p ps)
  show ?case
  proof (cases "is_dir d p")
    case True
    with Cons show ?thesis by simp
  next
    case False
    show ?thesis
    proof (cases "d p")
      case None
      with False Cons.prems have "mkdir_each um ps perm (d(p \<mapsto> DirEntry (create_mode um perm))) = (r, d')" by simp
      moreover from None Cons.prems(2) have "(d(p \<mapsto> DirEntry (create_mode um perm))) q = Some e" by auto
      ultimately show ?thesis by (rule Cons.IH)
    next
      case (Some a)
      with False Cons.prems show ?thesis by simp
    qed
  qed
qed

lemma mkdir_each_changes:
  "mkdir_each um ps perm d = (r, d') \<Longrightarrow> d' q \<noteq> d q \<Longrightarrow>
     q \<in> set ps \<and> d' q = Some (DirEntry (create_mode um perm))"
proof (induction ps arbitrary: d)
  case Nil
  then show ?case by simp
next
  case (Cons p ps)
  show ?case
  proof (cases "is_dir d p")
    case True
    with Cons.prems have "mkdir_each um ps perm d = (r, d')" by simp
    from Cons.IH [OF this Cons.prems(2)] show ?thesis by simp
  next
    case False
    show ?thesis
    proof (cases "d p")
      case None
      let ?d1 = "d(p \<mapsto> DirEntry (create_mode um perm))"
      from None False Cons.prems have run: "mkdir_each um ps perm ?d1 = (r, d')" by simp
      show ?thesis
      proof (cases "q = p")
        case True
        have "?d1 p = Some (DirEntry (create_mode um perm))" by simp
        with run have "d' p = Some (DirEntry (create_mode um perm))" by (rule mkdir_each_keeps)
        with True show ?thesis by simp
      next
        case False
        with Cons.prems(2) have "d' q \<noteq> ?d1 q" by simp
        from Cons.IH [OF run this] show ?thesis by simp
      qed
    next
      case (Some a)
      with False Cons.prems show ?thesis by simp
    qed
  qed
qed

lemma extract_reg:
  assumes "Typeflag h = TypeReg" and "extract_entry um dst h tr d = (None, tr', d')"
  shows "(\<exists>c m. d' (Join dst (Name h)) = Some (FileEntry c m))
         \<and> (\<forall>p. p \<noteq> Join dst (Name h) \<longrightarrow> d' p = d p)"
proof -
  let ?t = "Join dst (Name h)"
  have ne: "TypeReg \<noteq> TypeDir" by (simp add: TypeReg_def TypeDir_def)
  from assms ne obtain d1 b where
    op: "os_OpenFile um ?t (FileMode_of (Mode h)) d = Inr d1" and d': "d' = file_Write ?t b d1"
    by (auto simp: extract_entry_def Let_def split: sum.splits prod.splits option.splits)
  from op have "(\<exists>c m. d1 ?t = Some (FileEntry c m)) \<and> (\<forall>p. p \<noteq> ?t \<longrightarrow> d1 p = d p)"
    by (auto simp: os_OpenFile_def is_dir_def split: if_splits option.splits entry.splits)
  with d' show ?thesis by (auto simp: file_Write_def)
qed

lemma extract_dir:
  assumes "Typeflag h = TypeDir" and "extract_entry um dst h tr d = (None, tr', d')"
    and "d' p \<noteq> d p"
  shows "p \<in> set (path_prefixes (Join dst (Name h)))
         \<and> d' p = Some (DirEntry (create_mode um (FileMode_of (Mode h))))"
proof -
  from assms have "os_MkdirAll um (Join dst (Name h)) (FileMode_of (Mode h)) d = (None, d')"
    by (auto simp: extract_entry_def Let_def split: if_splits prod.splits option.splits)
  then have "mkdir_each um (path_prefixes (Join dst (Name h))) (FileMode_of (Mode h)) d = (None, d')"
    by (simp add: os_MkdirAll_def split: if_splits)
  from mkdir_each_changes [OF this assms(3)] show ?thesis .
qed

text \<open>A cleaned path other than the root and the working directory is the last of its
  own leading paths, so a directory entry that succeeds leaves its target in place.\<close>

lemma split_path_nonempty: "split_path p \<noteq> []"
  by (induction p) (auto split: list.splits)

lemma split_path_sep_free: "Separator \<notin> set p \<Longrightarrow> split_path p = [p]"
  by (induction p) auto

lemma split_path_append:
  "Separator \<notin> set p \<Longrightarrow> split_path (p @ Separator # r) = p # split_path r"
  by (induction p) (auto split: list.splits)

lemma split_path_join:
  "es \<noteq> [] \<Longrightarrow> \<forall>e\<in>set es. Separator \<notin> set e \<Longrightarrow> split_path (join_path es) = es"
proof (induction es rule: join_path.induct)
  case 1
  then show ?case by simp
next
  case (2 p)
  then show ?case by (simp add: split_path_sep_free)
next
  case (3 p q ps)
  then show ?case by (simp add: split_path_append)
qed

lemma split_path_elems: "e \<in> set (split_path p) \<Longrightarrow> Separator \<notin> set e"
proof (induction p arbitrary: e)
  case Nil
  then show ?case by simp
next
  case (Cons c cs)
  show ?case
  proof (cases "c = Separator")
    case True
    with Cons show ?thesis by auto
  next
    case False
    obtain x xs where s: "split_path cs = x # xs"
      using split_path_nonempty [of cs] by (cases "split_path cs") auto
    with False Cons.prems have "e = c # x \<or> e \<in> set xs" by simp
    moreover have "Separator \<notin> set x" using Cons.IH [of x] s by simp
    moreover have "e \<in> set xs \<Longrightarrow> Separator \<notin> set e" using Cons.IH [of e] s by simp
    ultimately show ?thesis using False by auto
  qed
qed

lemma clean_elems_good:
  "\<forall>x\<in>set st. x \<noteq> [] \<and> Separator \<notin> set x \<Longrightarrow> \<forall>x\<in>set es. Separator \<notin> set x \<Longrightarrow>
     \<forall>x\<in>set (clean_elems rooted st es). x \<noteq> [] \<and> Separator \<notin> set x"
proof (induction es arbitrary: st)
  case Nil
  then show ?case by simp
next
  case (Cons e es)
  from Cons.prems(2) have es: "\<forall>x\<in>set es. Separator \<notin> set x" and e: "Separator \<notin> set e"
    by simp_all
  have dots: "''..'' \<noteq> [] \<and> Separator \<notin> set ''..''" by (simp add: Separator_def)
  have "\<exists>st'. clean_elems rooted st (e # es) = clean_elems rooted st' es
          \<and> (\<forall>x\<in>set st'. x \<noteq> [] \<and> Separator \<notin> set x)"
  proof (cases "e = [] \<or> e = ''.''")
    case True
    then have "clean_elems rooted st (e # es) = clean_elems rooted st es" by auto
    with Cons.prems(1) show ?thesis by blast
  next
    case False
    show ?thesis
    proof (cases "e = ''..''")
      case d: True
      show ?thesis
      proof (cases st)
        case Nil
        show ?thesis
        proof (cases rooted)
          case True
          with False d Nil have "clean_elems rooted st (e # es) = clean_elems rooted [] es" by simp
          then show ?thesis by fastforce
        next
          case nr: False
          with False d Nil have "clean_elems rooted st (e # es) = clean_elems rooted [e] es" by simp
          moreover have "\<forall>x\<in>set [e]. x \<noteq> [] \<and> Separator \<notin> set x" using d dots by simp
          ultimately show ?thesis by blast
        qed
      next
        case (Cons t ts)
        show ?thesis
        proof (cases "t = ''..''")
          case True
          with False d Cons have "clean_elems rooted st (e # es) = clean_elems rooted (e # st) es"
            by simp
          moreover have "\<forall>x\<in>set (e # st). x \<noteq> [] \<and> Separator \<notin> set x"
            using d dots Cons.prems(1) by simp
          ultimately show ?thesis by blast
        next
          case nt: False
          with False d Cons have "clean_elems rooted st (e # es) = clean_elems rooted ts es"
            by simp
          moreover have "\<forall>x\<in>set ts. x \<noteq> [] \<and> Separator \<notin> set x"
            using Cons Cons.prems(1) by simp
          ultimately show ?thesis by blast
        qed
      qed
    next
      case nd: False
      with False have "clean_elems rooted st (e # es) = clean_elems rooted (e # st) es" by simp
      moreover have "\<forall>x\<in>set (e # st). x \<noteq> [] \<and> Separator \<notin> set x"
        using False e Cons.prems(1) by simp
      ultimately show ?thesis by blast
    qed
  qed
  then obtain st' where eq: "clean_elems rooted st (e # es) = clean_elems rooted st' es"
    and st': "\<forall>x\<in>set st'. x \<noteq> [] \<and> Separator \<notin> set x" by blast
  show ?case unfolding eq using st' es by (rule Cons.IH)
qed

lemma Clean_in_prefixes:
  assumes "Clean p \<noteq> ''.''" and "Clean p \<noteq> ''/''"
  shows "Clean p \<in> set (path_prefixes (Clean p))"
proof -
  define es where "es = clean_elems (is_rooted p) [] (split_path p)"
  define root where "root = (if is_rooted p then [Separator] else [])"
  have good: "\<forall>e\<in>set es. e \<noteq> [] \<and> Separator \<notin> set e"
    unfolding es_def using clean_elems_good [of "[]" "split_path p"] split_path_elems by auto
  have ne: "es \<noteq> []"
  proof
    assume "es = []"
    then have "Clean p = ''.'' \<or> Clean p = ''/''"
      by (simp add: Clean_def es_def [symmetric] Let_def Separator_def)
    with assms show False by simp
  qed
  then obtain x xs where es: "es = x # xs" by (cases es) auto
  with good have x: "x \<noteq> []" "Separator \<notin> set x" by simp_all
  have jn: "join_path es \<noteq> []" using es x by (cases xs) simp_all
  have hdj: "hd (join_path es) = hd x" using es x by (cases xs) simp_all
  have c: "Clean p = root @ join_path es"
    using jn by (simp add: Clean_def es_def [symmetric] root_def Let_def)
  have rooted: "is_rooted (Clean p) = is_rooted p"
  proof (cases "is_rooted p")
    case True
    then show ?thesis by (simp add: c root_def is_rooted_def)
  next
    case False
    have "hd x \<noteq> Separator" using x by (cases x) auto
    with False jn hdj show ?thesis by (cases "join_path es") (auto simp: c root_def is_rooted_def)
  qed
  have sp: "filter (\<lambda>e. e \<noteq> []) (split_path (Clean p)) = es"
  proof -
    have "split_path (join_path es) = es" using split_path_join [OF ne] good by blast
    moreover have "filter (\<lambda>e. e \<noteq> []) es = es" using good by (simp add: filter_id_conv)
    ultimately show ?thesis by (cases "is_rooted p") (simp_all add: c root_def)
  qed
  have "length es \<in> set [1 ..< Suc (length es)]" using ne by (cases es) auto
  then have "root @ join_path (take (length es) es) \<in> set (path_prefixes (Clean p))"
    unfolding path_prefixes_def Let_def sp rooted root_def by (rule imageI [THEN subst [where P = "\<lambda>X. _ \<in> X", OF set_map [symmetric]]])
  then show ?thesis by (simp add: c)
qed

lemma mkdir_each_is_dir:
  "mkdir_each um ps perm d = (r, d') \<Longrightarrow> is_dir d q \<Longrightarrow> is_dir d' q"
  using mkdir_each_keeps [of um ps perm d r d' q]
  by (auto simp: is_dir_def split: option.splits entry.splits)

lemma mkdir_each_dirs:
  "mkdir_each um ps perm d = (None, d') \<Longrightarrow> q \<in> set ps \<Longrightarrow> is_dir d' q"
proof (induction ps arbitrary: d)
  case Nil
  then show ?case by simp
next
  case (Cons p ps)
  show ?case
  proof (cases "is_dir d p")
    case True
    with Cons.prems have run: "mkdir_each um ps perm d = (None, d')" by simp
    show ?thesis
    proof (cases "q = p")
      case q: True
      with True run show ?thesis using mkdir_each_is_dir by blast
    next
      case False
      with Cons.prems(2) have "q \<in> set ps" by simp
      with run show ?thesis by (rule Cons.IH)
    qed
  next
    case False
    show ?thesis
    proof (cases "d p")
      case None
      let ?d1 = "d(p \<mapsto> DirEntry (create_mode um perm))"
      from None False Cons.prems have run: "mkdir_each um ps perm ?d1 = (None, d')" by simp
      show ?thesis
      proof (cases "q = p")
        case True
        have "is_dir ?d1 p" by (simp add: is_dir_def)
        with run True show ?thesis using mkdir_each_is_dir by blast
      next
        case nq: False
        with Cons.prems(2) have "q \<in> set ps" by simp
        with run show ?thesis by (rule Cons.IH)
      qed
    next
      case (Some a)
      with False Cons.prems show ?thesis by simp
    qed
  qed
qed

lemma is_dir_exists: "is_dir d p \<Longrightarrow> exists_path d p"
  by (auto simp: is_dir_def exists_path_def split: option.splits)

lemma extract_dir_exists:
  assumes "Typeflag h = TypeDir" and "extract_entry um dst h tr d = (None, tr', d')"
  shows "exists_path d' (Join dst (Name h))"
proof (cases "exists_path d (Join dst (Name h))")
  case True
  with assms have "d' = d" by (auto simp: extract_entry_def Let_def os_Stat_def)
  with True show ?thesis by simp
next
  case False
  let ?t = "Join dst (Name h)"
  from False have nd: "?t \<noteq> ''.''" "?t \<noteq> ''/''" by (auto simp: exists_path_def)
  from False assms have mk: "os_MkdirAll um ?t (FileMode_of (Mode h)) d = (None, d')"
    by (auto simp: extract_entry_def Let_def os_Stat_def split: prod.splits option.splits)
  then have t: "?t \<noteq> []" and run: "mkdir_each um (path_prefixes ?t) (FileMode_of (Mode h)) d = (None, d')"
    by (auto simp: os_MkdirAll_def split: if_splits)
  from t obtain x where "?t = Clean x" by (auto simp: Join_def split: if_splits)
  with nd have "?t \<in> set (path_prefixes ?t)" using Clean_in_prefixes [of x] by simp
  with run have "is_dir d' ?t" by (rule mkdir_each_dirs)
  then show ?thesis by (rule is_dir_exists)
qed

text \<open>A round of the loop that reads a header and goes on has extracted the entry.\<close>

lemma Untar_round_entry:
  assumes "Untar_rounds um (Suc 0) dst tr d = Inl d2" and "fst (fst (tr_Next tr)) = Some h"
  shows "\<exists>tr1 tr2. extract_entry um dst h tr1 d = (None, tr2, d2)"
proof -
  obtain err tr1 where nx: "tr_Next tr = ((Some h, err), tr1)"
    using assms(2) by (metis fst_conv prod.exhaust)
  obtain e2 tr2 d' where ex: "extract_entry um dst h tr1 d = (e2, tr2, d')"
    by (metis prod.exhaust)
  from assms(1) nx ex have "e2 = None \<and> d' = d2"
    by (cases e2) (auto split: if_splits)
  with ex show ?thesis by blast
qed

section \<open>Mode bits\<close>

lemma type_bit_not_regular:
  "m AND ModeDir \<noteq> 0 \<or> m AND ModeSymlink \<noteq> 0 \<or> m AND ModeNamedPipe \<noteq> 0 \<or> m AND ModeSocket \<noteq> 0
     \<or> m AND ModeDevice \<noteq> 0 \<or> m AND ModeCharDevice \<noteq> 0 \<or> m AND ModeIrregular \<noteq> 0
   \<Longrightarrow> \<not> IsRegular m"
  by (auto simp: IsRegular_def ModeType_def bit.conj_disj_distrib or_eq_0_iff)

lemma regular_with_special_bits:
  "IsRegular m \<Longrightarrow> IsRegular (m OR ModeSetuid OR ModeSetgid OR ModeSticky)"
proof -
  assume r: "IsRegular m"
  have s: "ModeSetuid AND ModeType = 0" "ModeSetgid AND ModeType = 0" "ModeSticky AND ModeType = 0"
    by (simp_all add: mode_defs)
  from r show ?thesis
    by (simp add: IsRegular_def bit.conj_disj_distrib2 s)
qed

section \<open>Two runs on the same tree\<close>

lemma forget_times_fields:
  assumes "forget_times a = forget_times b"
  shows "fi_Name a = fi_Name b" "fi_Size a = fi_Size b" "fi_Mode a = fi_Mode b"
    "fi_Uid a = fi_Uid b" "fi_Gid a = fi_Gid b" "fi_Uname a = fi_Uname b" "fi_Gname a = fi_Gname b"
proof -
  have "fi_Name (forget_times a) = fi_Name (forget_times b)" using assms by simp
  then show "fi_Name a = fi_Name b" by (simp add: forget_times_def)
  have "fi_Size (forget_times a) = fi_Size (forget_times b)" using assms by simp
  then show "fi_Size a = fi_Size b" by (simp add: forget_times_def)
  have "fi_Mode (forget_times a) = fi_Mode (forget_times b)" using assms by simp
  then show "fi_Mode a = fi_Mode b" by (simp add: forget_times_def)
  have "fi_Uid (forget_times a) = fi_Uid (forget_times b)" using assms by simp
  then show "fi_Uid a = fi_Uid b" by (simp add: forget_times_def)
  have "fi_Gid (forget_times a) = fi_Gid (forget_times b)" using assms by simp
  then show "fi_Gid a = fi_Gid b" by (simp add: forget_times_def)
  have "fi_Uname (forget_times a) = fi_Uname (forget_times b)" using assms by simp
  then show "fi_Uname a = fi_Uname b" by (simp add: forget_times_def)
  have "fi_Gname (forget_times a) = fi_Gname (forget_times b)" using assms by simp
  then show "fi_Gname a = fi_Gname b" by (simp add: forget_times_def)
qed

lemma forget_visit_fields:
  assumes "forget_visit a = forget_visit b"
  shows "v_file a = v_file b" "v_err a = v_err b" "forget_times (v_info a) = forget_times (v_info b)"
proof -
  have "v_file (forget_visit a) = v_file (forget_visit b)" using assms by simp
  then show "v_file a = v_file b" by (simp add: forget_visit_def)
  have "v_err (forget_visit a) = v_err (forget_visit b)" using assms by simp
  then show "v_err a = v_err b" by (simp add: forget_visit_def)
  have "v_info (forget_visit a) = v_info (forget_visit b)" using assms by simp
  then show "forget_times (v_info a) = forget_times (v_info b)" by (simp add: forget_visit_def)
qed

lemma walk_header_same:
  assumes "ModTime opt \<noteq> 0" and "forget_visit v1 = forget_visit v2"
  shows "walk_header src opt v1 = walk_header src opt v2"
proof -
  note f = forget_times_fields [OF forget_visit_fields(3) [OF assms(2)]]
  show ?thesis
    using assms(1) forget_visit_fields(1) [OF assms(2)]
    by (simp add: walk_header_def FileInfoHeader_def IsZero_def Let_def f)
qed

lemma walkFn_same:
  assumes "ModTime opt \<noteq> 0" and "forget_visit v1 = forget_visit v2"
    and "fs_Open fs1 (v_file v1) = fs_Open fs2 (v_file v1)"
  shows "walkFn src opt fs1 v1 tw = walkFn src opt fs2 v2 tw"
proof -
  have e: "v_err v1 = v_err v2" by (rule forget_visit_fields(2) [OF assms(2)])
  have m: "fi_Mode (v_info v1) = fi_Mode (v_info v2)"
    by (rule forget_times_fields(3) [OF forget_visit_fields(3) [OF assms(2)]])
  have h: "walk_header src opt v1 = walk_header src opt v2"
    by (rule walk_header_same [OF assms(1,2)])
  have f: "fs_Open fs1 (v_file v1) = fs_Open fs2 (v_file v2)"
    using assms(3) forget_visit_fields(1) [OF assms(2)] by simp
  show ?thesis unfolding walkFn_def e m h f by (rule refl)
qed

lemma Walk_same:
  "map_script forget_visit s1 = map_script forget_visit s2 \<Longrightarrow>
   pred_script (\<lambda>v. fs_Open fs1 (v_file v) = fs_Open fs2 (v_file v)) s1 \<Longrightarrow>
   ModTime opt \<noteq> 0 \<Longrightarrow>
   Walk s1 (walkFn src opt fs1) tw = Walk s2 (walkFn src opt fs2) tw"
proof (induction s1 arbitrary: s2 tw)
  case Done
  then have "s2 = Done" by (cases s2) simp_all
  then show ?case by simp
next
  case (Call v n k)
  from Call.prems(1) obtain v2 n2 k2 where s2: "s2 = Call v2 n2 k2"
    and hd: "forget_visit v = forget_visit v2"
    and nx: "map_script forget_visit n = map_script forget_visit n2"
    and sk: "map_script forget_visit k = map_script forget_visit k2"
    by (cases s2) simp_all
  from Call.prems(2) have o: "fs_Open fs1 (v_file v) = fs_Open fs2 (v_file v)"
    and on: "pred_script (\<lambda>v. fs_Open fs1 (v_file v) = fs_Open fs2 (v_file v)) n"
    and ok: "pred_script (\<lambda>v. fs_Open fs1 (v_file v) = fs_Open fs2 (v_file v)) k"
    by simp_all
  have step: "walkFn src opt fs1 v tw = walkFn src opt fs2 v2 tw"
    using Call.prems(3) hd o by (rule walkFn_same)
  obtain r tw1 where res: "walkFn src opt fs2 v2 tw = (r, tw1)" by (metis prod.exhaust)
  have n: "Walk n (walkFn src opt fs1) tw1 = Walk n2 (walkFn src opt fs2) tw1"
    using nx on Call.prems(3) by (rule Call.IH(1))
  have k: "Walk k (walkFn src opt fs1) tw1 = Walk k2 (walkFn src opt fs2) tw1"
    using sk ok Call.prems(3) by (rule Call.IH(2))
  show ?case unfolding s2 Walk.simps step res using n k by (cases r) simp_all
qed

lemma Tar_same:
  assumes "ModTime opt \<noteq> 0" and "same_tree fs1 fs2 src"
  shows "Tar blk src (Some opt) fs1 w = Tar blk src (Some opt) fs2 w"
proof (cases "fs_Stat fs1 src")
  case (Inl e)
  with assms(2) have "fs_Stat fs2 src = Inl e"
    by (cases "fs_Stat fs2 src") (auto simp: same_tree_def)
  with Inl show ?thesis by (simp add: Tar_def)
next
  case (Inr i1)
  with assms(2) obtain i2 where s2: "fs_Stat fs2 src = Inr i2" and i: "forget_times i1 = forget_times i2"
    by (cases "fs_Stat fs2 src") (auto simp: same_tree_def)
  note f = forget_times_fields [OF i]
  from assms(2) have w: "Walk (fs_Walk fs1 src) (walkFn src opt fs1) tw = Walk (fs_Walk fs2 src) (walkFn src opt fs2) tw" for tw
    using Walk_same [OF _ _ assms(1)] by (simp add: same_tree_def)
  from assms(2) have o: "fs_Open fs1 src = fs_Open fs2 src" by (simp add: same_tree_def)
  have "Tar_body src opt fs1 i1 tw = Tar_body src opt fs2 i2 tw" for tw
    by (simp add: Tar_body_def file_header_def f w o)
  then show ?thesis by (simp add: Tar_def Tar_opt_def Inr s2)
qed

section \<open>A refused write reaches the result of the body\<close>














text \<open>Once the tar writer holds an error the function of the walk leaves it as it is, and so
  does the rest of the walk.\<close>

lemma tw_Flush_stuck: "tw_err tw \<noteq> None \<Longrightarrow> tw_Flush tw = (tw_err tw, tw)"
  by (simp add: tw_Flush_def)

lemma tw_WriteHeader_stuck: "tw_err tw \<noteq> None \<Longrightarrow> snd (tw_WriteHeader hdr tw) = tw"
  by (auto simp: tw_WriteHeader_def tw_Flush_stuck)








lemma Bytes_test_stream:
  "Bytes 65536 sample_clock test_content None [open_sink] =
     ((22, None),
      [\<lparr>received =
          [GzipHeader,
           Deflate [HeaderBlock \<lparr>Typeflag = TypeReg, Name = ''20240101T000000'', Size = 22,
                      Mode = 420, Uid = 0, Gid = 0, Uname = ''user'', Gname = ''user'',
                      ModTime = 63839664000, AccessTime = 0, ChangeTime = 0\<rparr>,
                    Content test_content, Padding 490, ZeroBlock, ZeroBlock],
           GzipTrailer],
        quota = None, failure = EACCES, refused = False\<rparr>])"
  by (simp add: test_content_def pipe_defs bytes_defs tree_defs)

section \<open>The claims\<close>

text \<open>
  C1 (the code does not do this). The claim: on a stream that ends cleanly \<open>Untar\<close>
  terminates and returns no error, and a decode error makes it return that error.
  The code: at the end of the stream, and at a decode error, \<open>tr.Next()\<close> returns a nil
  header, the first case of the \<open>switch\<close> takes it, and the loop goes on for ever. So
  \<open>Untar\<close> never returns without an error, whatever the stream; on the archive with no
  entries it does not return, and on an archive cut off in its trailer it does not return.
\<close>

theorem C1_Untar_never_returns_nil:
  "Untar um dst r d \<noteq> Some (None, d')
   \<and> Untar um dst [GzipHeader, Deflate [ZeroBlock, ZeroBlock], GzipTrailer] d = None
   \<and> Untar um dst [GzipHeader, Deflate [ZeroBlock]] d = None"
proof (intro conjI)
  show "Untar um dst r d \<noteq> Some (None, d')"
    using Untar_loop_returns [of um dst _ d "(None, d')"]
    by (auto simp: Untar_def split: sum.splits)
  show "Untar um dst [GzipHeader, Deflate [ZeroBlock, ZeroBlock], GzipTrailer] d = None"
    by (simp add: Untar_def gzip_NewReader_def tar_NewReader_def Untar_loop_no_header tr_Next_def)
  show "Untar um dst [GzipHeader, Deflate [ZeroBlock]] d = None"
    by (simp add: Untar_def gzip_NewReader_def tar_NewReader_def Untar_loop_no_header tr_Next_def)
qed

text \<open>
  C2 (the code does not do this). The claim: the name of a walked file's entry is its walked
  path with the \<open>src\<close> prefix removed once from the front, also when \<open>src\<close> occurs again
  later in the path. The code removes every occurrence of \<open>src\<close>
  (\<open>strings.Replace(file, src, "", -1)\<close>): walking \<open>data\<close>, the file
  \<open>data/sub/data.txt\<close> is archived under the name \<open>sub/.txt\<close>, not \<open>sub/data.txt\<close>.
\<close>

theorem C2_entry_name_loses_later_occurrences:
  "map v_file (script_calls (fs_Walk (tree_fs ''data'' data_tree) ''data''))
     = [''data'', ''data/sub'', ''data/sub/data.txt'']
   \<and> entry_name ''data'' ''data/sub/data.txt'' = ''sub/.txt''
   \<and> map Name (archived (hd (snd (Tar 65536 ''data'' None (tree_fs ''data'' data_tree) [open_sink]))))
       = [''sub/.txt'']"
  by (simp add: pipe_defs tar_defs tree_defs path_defs read_defs mode_defs)

text \<open>
  C3 (the code does not do this). The claim: the target file is created or truncated, so
  that afterwards it holds exactly the entry's bytes even if a longer file was there. The
  code opens the file with \<open>O_CREATE|O_WRONLY\<close> and no \<open>O_TRUNC\<close>: extracting the entry
  \<open>f\<close> with content \<open>abc\<close> over a file \<open>out/f\<close> that holds \<open>hello world\<close> leaves
  \<open>abclo world\<close>. (The loop is still running after the two rounds, see C1.)
\<close>

theorem C3_existing_file_is_not_truncated:
  "file_Write p b (d(p \<mapsto> FileEntry c m)) p = Some (FileEntry (b @ drop (length b) c) m)
   \<and> (case gzip_NewReader
           [GzipHeader,
            Deflate [HeaderBlock (Header0\<lparr>Typeflag := TypeReg, Name := ''f'', Size := 3, Mode := 420\<rparr>),
                     Content ''abc'', Padding 509, ZeroBlock, ZeroBlock],
            GzipTrailer] of
      Inl e \<Rightarrow> False
    | Inr gzr \<Rightarrow>
        Untar_rounds um 2 ''out'' (tar_NewReader gzr)
          [''out'' \<mapsto> DirEntry 493, ''out/f'' \<mapsto> FileEntry ''hello world'' 420]
        = Inl [''out'' \<mapsto> DirEntry 493, ''out/f'' \<mapsto> FileEntry ''abclo world'' 420])"
  by (simp add: numeral_2_eq_2 read_defs untar_defs path_defs pipe_defs)




text \<open>
  C5 (the code does not do this). The claim: the override's owner, group, mode and, when it
  is not zero, modification time are in the header of every entry, in single-file mode as
  in the other two. In single-file mode the code builds the header from the override's
  \<open>Uname\<close>, \<open>Gname\<close> and \<open>Mode\<close> only: the header's modification time stays the zero
  time, which the archive holds as the start of the Unix epoch.
\<close>

theorem C5_single_file_ignores_ModTime:
  "ModTime (file_header src opt info) = 0
   \<and> map (\<lambda>h. (Uname h, Gname h, Mode h, ModTime h))
     (archived (hd (snd (Tar 65536 ''a.txt''
        (Some (Header0\<lparr>Uname := ''root'', Gname := ''wheel'', Mode := 384, ModTime := 63839664000\<rparr>))
        (tree_fs ''a.txt'' (reg_file ''a.txt'' 420 ''x'')) [open_sink]))))
   = [(''root'', ''wheel'', 384, unix_epoch)]"
  by (simp add: pipe_defs tar_defs tree_defs path_defs read_defs mode_defs)

text \<open>
  C6 (the code does not do this). The claim: a file whose mode bits mark it as not regular
  (symlink, device, socket, named pipe, or a file with the setuid, setgid or sticky bit)
  gives no entry and no error. The code tests \<open>IsRegular\<close>, which looks at the type bits
  and at no other: a regular file with the setuid, setgid or sticky bit is regular and is
  archived, alone and in a walk, and so is a file that may be executed, which the comments
  of the code say is left out. In single-file mode \<open>os.Stat\<close> follows a symbolic link, so the
  link is not seen as one: one that leads to no file is the error of \<open>os.Stat\<close>.
\<close>

theorem C6_setuid_file_is_archived:
  "IsRegular ((m AND ModePerm) OR ModeSetuid OR ModeSetgid OR ModeSticky)
   \<and> (ModeSetuid OR 493) AND ModeSetuid \<noteq> 0
   \<and> Tar 65536 ''tool'' None (tree_fs ''tool'' (reg_file ''tool'' (ModeSetuid OR 493) ''x''))
        [open_sink]
      = (None,
         [\<lparr>received =
             [GzipHeader,
              Deflate [HeaderBlock \<lparr>Typeflag = TypeReg, Name = ''tool'', Size = 1, Mode = 420,
                         Uid = 0, Gid = 0, Uname = ''user'', Gname = ''user'',
                         ModTime = unix_epoch, AccessTime = 0, ChangeTime = 0\<rparr>,
                       Content ''x'', Padding 511, ZeroBlock, ZeroBlock],
              GzipTrailer],
           quota = None, failure = EACCES, refused = False\<rparr>])
   \<and> map Name (archived (hd (snd (Tar 65536 ''bin'' None
        (tree_fs ''bin'' (directory ''bin'' [reg_file ''tool'' (ModeSetuid OR 493) ''x'',
                                             reg_file ''zip'' (ModeSticky OR ModeSetgid OR 493) ''y'']))
        [open_sink]))))
      = [''tool'', ''zip'']
   \<and> map Name (archived (hd (snd (Tar 65536 ''run'' None
        (tree_fs ''run'' (reg_file ''run'' 493 ''x'')) [open_sink]))))
      = [''run'']
   \<and> fst (Tar 65536 ''lnk'' None (tree_fs ''lnk'' (reg_file ''lnk'' (ModeSymlink OR 511) []))
        [open_sink])
      = Some ENOENT"
proof (intro conjI)
  have "ModePerm AND ModeType = 0" by (simp add: mode_defs)
  then have "(m AND ModePerm) AND ModeType = 0"
    by (metis and.assoc and_zero_eq)
  then have "IsRegular (m AND ModePerm)" by (simp add: IsRegular_def)
  then show "IsRegular ((m AND ModePerm) OR ModeSetuid OR ModeSetgid OR ModeSticky)"
    by (rule regular_with_special_bits)
qed (simp_all add: pipe_defs tar_defs tree_defs path_defs read_defs mode_defs)

text \<open>
  C7 (the code does not do this). The claim: archiving a buffer with \<open>Bytes\<close> and extracting
  the stream with \<open>Untar\<close> into an empty directory gives one file with the buffer's bytes.
  \<open>Untar\<close> on the stream of \<open>Bytes\<close> never returns without an error; on the buffer of the
  specification's scenario it does not return at all: after two rounds of the loop the file is
  written, and the loop goes on for ever on the nil header (the defect of C1).
\<close>

theorem C7_roundtrip_does_not_return:
  "Untar um dst (received (hd (snd (Bytes blk clk b opt [open_sink])))) d \<noteq> Some (None, d')
   \<and> Untar um ''out'' (received (hd (snd (Bytes 65536 sample_clock test_content None [open_sink]))))
      [''out'' \<mapsto> DirEntry 493] = None
   \<and> (case gzip_NewReader (received (hd (snd (Bytes 65536 sample_clock test_content None [open_sink])))) of
        Inl e \<Rightarrow> False
      | Inr gzr \<Rightarrow>
          Untar_rounds um 2 ''out'' (tar_NewReader gzr) [''out'' \<mapsto> DirEntry 493]
            = Inl [''out'' \<mapsto> DirEntry 493,
                   ''out/20240101T000000'' \<mapsto> FileEntry test_content (create_mode um 420)])"
proof (intro conjI)
  show "Untar um dst (received (hd (snd (Bytes blk clk b opt [open_sink])))) d \<noteq> Some (None, d')"
    using Untar_loop_returns [of um dst _ d "(None, d')"]
    by (auto simp: Untar_def split: sum.splits)
  show "Untar um ''out'' (received (hd (snd (Bytes 65536 sample_clock test_content None [open_sink]))))
      [''out'' \<mapsto> DirEntry 493] = None"
    apply (simp add: Bytes_test_stream Untar_def gzip_NewReader_def tar_NewReader_def)
    apply (subst Untar_loop.simps)
    apply (simp add: test_content_def read_defs untar_defs path_defs pipe_defs)
    apply (rule Untar_loop_no_header)
    apply (simp add: read_defs)
    done
  show "(case gzip_NewReader (received (hd (snd (Bytes 65536 sample_clock test_content None [open_sink])))) of
        Inl e \<Rightarrow> False
      | Inr gzr \<Rightarrow>
          Untar_rounds um 2 ''out'' (tar_NewReader gzr) [''out'' \<mapsto> DirEntry 493]
            = Inl [''out'' \<mapsto> DirEntry 493,
                   ''out/20240101T000000'' \<mapsto> FileEntry test_content (create_mode um 420)])"
    apply (simp add: Bytes_test_stream gzip_NewReader_def tar_NewReader_def)
    apply (simp add: numeral_2_eq_2 test_content_def read_defs untar_defs path_defs pipe_defs)
    done
qed

text \<open>
  C8 (confirmed). When \<open>Bytes\<close> returns no error, the count it returns is the length of
  the buffer.
\<close>

theorem C8_Bytes_returns_buffer_length:
  "Bytes blk clk b opt w = ((n, None), w') \<Longrightarrow> n = int (length b)"
  by (auto simp: Bytes_def Bytes_body_def io_Copy_def Let_def split: prod.splits if_splits option.splits)

theorem C8_witness:
  "fst (Bytes 65536 sample_clock test_content None [open_sink]) = (22, None)
   \<and> (22::int) = int (length test_content)"
  using C8_Bytes_returns_buffer_length [OF Bytes_test_stream] Bytes_test_stream by simp

text \<open>
  C9 (confirmed). With a header override, the stream of \<open>Bytes\<close> does not depend on the
  clock. With an override whose modification time is not zero, \<open>Tar\<close> gives the same result
  and the same streams on two file systems that show the same tree in the same walk order and
  differ only in the files' time stamps.
\<close>

theorem C9_same_input_same_stream:
  "Bytes blk clka b (Some opt) w = Bytes blk clkb b (Some opt) w
   \<and> (ModTime opt \<noteq> 0 \<and> same_tree fsa fsb src \<longrightarrow>
        Tar blk src (Some opt) fsa w = Tar blk src (Some opt) fsb w)"
  using Tar_same by (simp add: Bytes_def Bytes_body_def Bytes_opt_def)

text \<open>The theorem at a tree and the same tree with all of its files touched.\<close>

theorem C9_witness:
  "ModTime (Header0\<lparr>Uname := ''root'', Gname := ''wheel'', Mode := 420, ModTime := 63839664000\<rparr>) \<noteq> 0
   \<and> same_tree (tree_fs ''data'' data_tree) (tree_fs ''data'' (touched 63900000000 data_tree)) ''data''
   \<and> Tar 65536 ''data''
        (Some (Header0\<lparr>Uname := ''root'', Gname := ''wheel'', Mode := 420, ModTime := 63839664000\<rparr>))
        (tree_fs ''data'' data_tree) [open_sink]
      = Tar 65536 ''data''
        (Some (Header0\<lparr>Uname := ''root'', Gname := ''wheel'', Mode := 420, ModTime := 63839664000\<rparr>))
        (tree_fs ''data'' (touched 63900000000 data_tree)) [open_sink]"
proof -
  let ?opt = "Header0\<lparr>Uname := ''root'', Gname := ''wheel'', Mode := 420, ModTime := 63839664000\<rparr>"
  have m: "ModTime ?opt \<noteq> 0" by (simp add: Header0_def)
  have t: "same_tree (tree_fs ''data'' data_tree) (tree_fs ''data'' (touched 63900000000 data_tree)) ''data''"
    by (simp add: same_tree_def forget_times_def forget_visit_def tree_defs path_defs mode_defs)
  from C9_same_input_same_stream [THEN conjunct2, THEN mp, OF conjI [OF m t]] m t
  show ?thesis by blast
qed

text \<open>
  C10 (confirmed). A round of the loop of \<open>Untar\<close> that reads the header of a regular entry
  and goes on leaves a file at \<open>filepath.Join(dst, name)\<close> and no other path changed; one
  that reads the header of a directory entry leaves \<open>filepath.Join(dst, name)\<close> in place, and
  the paths that changed lie on the way to it and are directories now. Nothing checks that
  the target lies within \<open>dst\<close>: from a stream that holds an entry named \<open>../evil\<close>, and
  from one that holds a directory entry named \<open>../made/\<close>, \<open>Untar\<close> to \<open>/tmp/out\<close> makes
  the file \<open>/tmp/evil\<close> and the directory \<open>/tmp/made\<close>. (The loop is still running after
  the two rounds, see C1.)
\<close>

theorem C10_target_is_Join_with_no_containment_check:
  "(fst (fst (tr_Next tr)) = Some h \<and> Typeflag h = TypeReg
      \<and> Untar_rounds um 1 dst tr d = Inl d2 \<longrightarrow>
      (\<exists>c m. d2 (Join dst (Name h)) = Some (FileEntry c m))
      \<and> (\<forall>p. p \<noteq> Join dst (Name h) \<longrightarrow> d2 p = d p))
   \<and> (fst (fst (tr_Next tr)) = Some h \<and> Typeflag h = TypeDir
      \<and> Untar_rounds um 1 dst tr d = Inl d2 \<longrightarrow>
      exists_path d2 (Join dst (Name h))
      \<and> (\<forall>p. d2 p \<noteq> d p \<longrightarrow> p \<in> set (path_prefixes (Join dst (Name h))) \<and> is_dir d2 p))
   \<and> ''..'' \<in> set (split_path ''../evil'') \<and> \<not> within ''/tmp/out'' ''/tmp/evil''
   \<and> (case gzip_NewReader
           [GzipHeader,
            Deflate [HeaderBlock (Header0\<lparr>Typeflag := TypeReg, Name := ''../evil'', Size := 2,
                                           Mode := 420\<rparr>),
                     Content ''hi'', Padding 510, ZeroBlock, ZeroBlock],
            GzipTrailer] of
        Inl e \<Rightarrow> False
      | Inr gzr \<Rightarrow>
          Untar_rounds um 2 ''/tmp/out'' (tar_NewReader gzr)
            [''/tmp'' \<mapsto> DirEntry 493, ''/tmp/out'' \<mapsto> DirEntry 493]
          = Inl [''/tmp'' \<mapsto> DirEntry 493, ''/tmp/out'' \<mapsto> DirEntry 493,
                 ''/tmp/evil'' \<mapsto> FileEntry ''hi'' (create_mode um 420)])
   \<and> ''..'' \<in> set (split_path ''../made/'') \<and> \<not> within ''/tmp/out'' ''/tmp/made''
   \<and> (case gzip_NewReader
           [GzipHeader,
            Deflate [HeaderBlock (Header0\<lparr>Typeflag := TypeDir, Name := ''../made/'', Mode := 493\<rparr>),
                     ZeroBlock, ZeroBlock],
            GzipTrailer] of
        Inl e \<Rightarrow> False
      | Inr gzr \<Rightarrow>
          Untar_rounds um 2 ''/tmp/out'' (tar_NewReader gzr)
            [''/tmp'' \<mapsto> DirEntry 493, ''/tmp/out'' \<mapsto> DirEntry 493]
          = Inl [''/tmp'' \<mapsto> DirEntry 493, ''/tmp/out'' \<mapsto> DirEntry 493,
                 ''/tmp/made'' \<mapsto> DirEntry (create_mode um 493)])"
proof (intro conjI impI allI)
  assume a: "fst (fst (tr_Next tr)) = Some h \<and> Typeflag h = TypeReg
      \<and> Untar_rounds um 1 dst tr d = Inl d2"
  then obtain tr1 tr2 where ex: "extract_entry um dst h tr1 d = (None, tr2, d2)"
    using Untar_round_entry [of um dst tr d d2 h] by auto
  from a ex show "\<exists>c m. d2 (Join dst (Name h)) = Some (FileEntry c m)"
    using extract_reg by blast
  fix p assume "p \<noteq> Join dst (Name h)"
  with a ex show "d2 p = d p" using extract_reg by blast
next
  assume a: "fst (fst (tr_Next tr)) = Some h \<and> Typeflag h = TypeDir
      \<and> Untar_rounds um 1 dst tr d = Inl d2"
  then obtain tr1 tr2 where ex: "extract_entry um dst h tr1 d = (None, tr2, d2)"
    using Untar_round_entry [of um dst tr d d2 h] by auto
  from a ex show "exists_path d2 (Join dst (Name h))" using extract_dir_exists by blast
  fix p
  assume "d2 p \<noteq> d p"
  with a ex have "p \<in> set (path_prefixes (Join dst (Name h)))
      \<and> d2 p = Some (DirEntry (create_mode um (FileMode_of (Mode h))))"
    using extract_dir by blast
  then show "p \<in> set (path_prefixes (Join dst (Name h)))" and "is_dir d2 p"
    by (simp_all add: is_dir_def)
qed (simp_all add: numeral_2_eq_2 within_def untar_defs read_defs path_defs pipe_defs)

text \<open>The theorem at the stream that holds the entry \<open>../evil\<close>, under the umask 022.\<close>

theorem C10_witness:
  "gzip_NewReader
     [GzipHeader,
      Deflate [HeaderBlock (Header0\<lparr>Typeflag := TypeReg, Name := ''../evil'', Size := 2,
                                     Mode := 420\<rparr>),
               Content ''hi'', Padding 510, ZeroBlock, ZeroBlock],
      GzipTrailer]
   = Inr ([HeaderBlock (Header0\<lparr>Typeflag := TypeReg, Name := ''../evil'', Size := 2,
                                  Mode := 420\<rparr>),
           Content ''hi'', Padding 510, ZeroBlock, ZeroBlock], EOF)
   \<and> fst (fst (tr_Next (tar_NewReader
        ([HeaderBlock (Header0\<lparr>Typeflag := TypeReg, Name := ''../evil'', Size := 2,
                                 Mode := 420\<rparr>),
          Content ''hi'', Padding 510, ZeroBlock, ZeroBlock], EOF))))
      = Some (Header0\<lparr>Typeflag := TypeReg, Name := ''../evil'', Size := 2, Mode := 420\<rparr>)
   \<and> Typeflag (Header0\<lparr>Typeflag := TypeReg, Name := ''../evil'', Size := 2, Mode := 420\<rparr>)
      = TypeReg
   \<and> Untar_rounds 18 1 ''/tmp/out''
        (tar_NewReader
          ([HeaderBlock (Header0\<lparr>Typeflag := TypeReg, Name := ''../evil'', Size := 2,
                                   Mode := 420\<rparr>),
            Content ''hi'', Padding 510, ZeroBlock, ZeroBlock], EOF))
        [''/tmp'' \<mapsto> DirEntry 493, ''/tmp/out'' \<mapsto> DirEntry 493]
      = Inl [''/tmp'' \<mapsto> DirEntry 493, ''/tmp/out'' \<mapsto> DirEntry 493,
             ''/tmp/evil'' \<mapsto> FileEntry ''hi'' 420]
   \<and> Join ''/tmp/out'' ''../evil'' = ''/tmp/evil''
   \<and> (\<exists>c m. [''/tmp'' \<mapsto> DirEntry 493, ''/tmp/out'' \<mapsto> DirEntry 493,
              ''/tmp/evil'' \<mapsto> FileEntry ''hi'' 420] (Join ''/tmp/out'' ''../evil'')
            = Some (FileEntry c m))"
proof -
  let ?h = "Header0\<lparr>Typeflag := TypeReg, Name := ''../evil'', Size := 2, Mode := 420\<rparr>"
  let ?bs = "[HeaderBlock ?h, Content ''hi'', Padding 510, ZeroBlock, ZeroBlock]"
  let ?tr = "tar_NewReader (?bs, EOF)"
  let ?d = "[''/tmp'' \<mapsto> DirEntry 493, ''/tmp/out'' \<mapsto> DirEntry 493]"
  let ?d2 = "[''/tmp'' \<mapsto> DirEntry 493, ''/tmp/out'' \<mapsto> DirEntry 493,
              ''/tmp/evil'' \<mapsto> FileEntry ''hi'' 420]"
  have g: "gzip_NewReader [GzipHeader, Deflate ?bs, GzipTrailer] = Inr (?bs, EOF)"
    by (simp add: read_defs)
  have nx: "fst (fst (tr_Next ?tr)) = Some ?h"
    by (simp add: read_defs Header0_def TypeReg_def TypeRegA_def)
  have t: "Typeflag ?h = TypeReg" by (simp add: Header0_def)
  have n: "Name ?h = ''../evil''" by (simp add: Header0_def)
  have j: "Join ''/tmp/out'' ''../evil'' = ''/tmp/evil''" by (simp add: path_defs)
  have run: "Untar_rounds 18 1 ''/tmp/out'' ?tr ?d = Inl ?d2"
    by (simp add: create_mode_def mode_defs untar_defs read_defs path_defs pipe_defs)
  from C10_target_is_Join_with_no_containment_check [THEN conjunct1, THEN mp,
    of ?tr ?h 18 "''/tmp/out''" ?d ?d2] nx t run
  have "\<exists>c m. ?d2 (Join ''/tmp/out'' (Name ?h)) = Some (FileEntry c m)" by blast
  with g nx t run j n show ?thesis by simp
qed

end
